theory Spec2Isabelle
  imports Complex_Main "HOL-Library.Word"
begin

unbundle bit_operations_syntax

section \<open>Lookup tables of the Quantum Synchrotron engine\<close>

text \<open>
  A shallow embedding of \<^verbatim>\<open>quantum_sync_engine_tables.hpp\<close>: the two table classes
  \<^verbatim>\<open>dndt_lookup_table\<close> and \<^verbatim>\<open>photon_emission_lookup_table\<close>, their parameter
  structs, their constructors, \<^verbatim>\<open>get_view\<close>, \<^verbatim>\<open>interp\<close>, \<^verbatim>\<open>set_all_vals\<close>,
  \<^verbatim>\<open>serialize\<close> and \<^verbatim>\<open>operator==\<close>.

  Both classes are templates over \<^verbatim>\<open>RealType\<close> and \<^verbatim>\<open>VectorType\<close>. The scalar type is
  the type variable \<open>'r\<close>; the operations the code applies to it are passed as a record,
  the way a template is instantiated with a type that brings its operators. Nothing is
  assumed about them, so every theorem stated for an arbitrary record holds for IEEE
  single and double precision as well as for exact real arithmetic.
\<close>

subsection \<open>Machine integers and bytes\<close>

type_synonym byte = "8 word"

text \<open>The C++ \<^verbatim>\<open>int\<close> of the grid resolutions: 32 bits, read as two's complement by \<open>sint\<close>.\<close>

type_synonym c_int = "32 word"

text \<open>\<^verbatim>\<open>static_cast<size_t>(i)\<close> of a signed value: reduction modulo \<open>2 ^ 64\<close>.\<close>

definition size_t_of_int :: "int \<Rightarrow> nat" where
  "size_t_of_int i = nat (i mod 2 ^ 64)"

subsection \<open>The template parameter \<^verbatim>\<open>RealType\<close>\<close>

text \<open>
  The arithmetic the tables use on a scalar: \<^verbatim>\<open>operator<\<close> (and \<^verbatim>\<open>a > b\<close> as \<^verbatim>\<open>b < a\<close>),
  \<^verbatim>\<open>+ - * /\<close>, the conversion from \<^verbatim>\<open>int\<close>, the value-initialised \<^verbatim>\<open>RealType()\<close>,
  \<^verbatim>\<open>math::one<RealType>\<close>, and \<^verbatim>\<open>math::m_log\<close>, \<^verbatim>\<open>math::m_exp\<close> of
  \<^verbatim>\<open>cmath_overloads.hpp\<close> (the overloads of \<^verbatim>\<open>std::log\<close> and \<^verbatim>\<open>std::exp\<close>).
\<close>

record 'r RealType =
  r_lt :: "'r \<Rightarrow> 'r \<Rightarrow> bool"
  r_add :: "'r \<Rightarrow> 'r \<Rightarrow> 'r"
  r_sub :: "'r \<Rightarrow> 'r \<Rightarrow> 'r"
  r_mul :: "'r \<Rightarrow> 'r \<Rightarrow> 'r"
  r_div :: "'r \<Rightarrow> 'r \<Rightarrow> 'r"
  r_of_int :: "int \<Rightarrow> 'r"
  r_zero :: "'r"
  r_one :: "'r"
  m_log :: "'r \<Rightarrow> 'r"
  m_exp :: "'r \<Rightarrow> 'r"

text \<open>\<^verbatim>\<open>std::isinf\<close> and \<^verbatim>\<open>std::numeric_limits<RealType>::lowest()\<close>.\<close>

record 'r numeric_limits =
  std_isinf :: "'r \<Rightarrow> bool"
  lowest :: "'r"

text \<open>
  The object representation of a scalar, which \<^verbatim>\<open>serialization::put_in\<close> and
  \<^verbatim>\<open>serialization::get_out\<close> copy byte by byte: \<^verbatim>\<open>sizeof(RealType)\<close>, the bytes of a
  value, and the value of \<^verbatim>\<open>sizeof(RealType)\<close> bytes.
\<close>

record 'r object_repr =
  sizeof_RealType :: nat
  to_bytes :: "'r \<Rightarrow> byte list"
  from_bytes :: "byte list \<Rightarrow> 'r"


text \<open>Exact real arithmetic: the idealised instance, without rounding and special values.\<close>

definition exact_real :: "real RealType" where
  "exact_real = \<lparr> r_lt = (<), r_add = (+), r_sub = (-), r_mul = (*), r_div = (/),
     r_of_int = of_int, r_zero = 0, r_one = 1, m_log = ln, m_exp = exp \<rparr>"

subsection \<open>The template parameter \<^verbatim>\<open>VectorType\<close>\<close>

text \<open>
  An owning table holds a \<^verbatim>\<open>std::vector\<close>; a view holds a
  \<^verbatim>\<open>picsar_span<const RealType>\<close>, a size and a pointer to elements owned elsewhere.
  \<open>Span n buf\<close> is the span of size \<open>n\<close> whose pointer is the address of the first
  element of a buffer holding \<open>buf\<close>. Both are read through \<^verbatim>\<open>size()\<close> and
  \<^verbatim>\<open>operator[]\<close>; an index past the buffer is undefined behaviour in the source and
  unspecified here.
\<close>

datatype 'r VectorType = Vector "'r list" | Span nat "'r list"

fun vsize :: "'r VectorType \<Rightarrow> nat" where
  "vsize (Vector xs) = length xs"
| "vsize (Span n buf) = n"

fun vdata :: "'r VectorType \<Rightarrow> 'r list" where
  "vdata (Vector xs) = xs"
| "vdata (Span n buf) = buf"

definition vat :: "'r VectorType \<Rightarrow> nat \<Rightarrow> 'r" where
  "vat v = (\<lambda>i. vdata v ! i)"

text \<open>
  \<^verbatim>\<open>m_values[i] = x\<close>. A span of \<^verbatim>\<open>const RealType\<close> cannot be written (a view is a
  \<^verbatim>\<open>const\<close> table and no mutating member can be called on it), so it is left as it is.
\<close>

fun vset :: "'r VectorType \<Rightarrow> nat \<Rightarrow> 'r \<Rightarrow> 'r VectorType" where
  "vset (Vector xs) i x = Vector (xs[i := x])"
| "vset (Span n buf) i x = Span n buf"

subsection \<open>The grid containers\<close>

text \<open>
  Modelled from the spec: \<^verbatim>\<open>containers/picsar_tables.hpp\<close> is not among the sources.
  The equispaced 1D table owns a fixed-size ordered sequence of samples on an axis between
  two bounds; its resolution is the number of samples it was built from.
\<close>

record 'r equispaced_1d_table =
  m_x_min :: 'r
  m_x_max :: 'r
  m_how_many_x :: c_int
  m_values :: "'r VectorType"

text \<open>
  Modelled from the spec: the constructor of the 1D table from its two bounds and its
  samples (of \<^verbatim>\<open>containers/picsar_tables.hpp\<close>); the resolution is the size of the
  sample container, converted to \<^verbatim>\<open>int\<close>.
\<close>

definition equispaced_1d_table_new :: "'r \<Rightarrow> 'r \<Rightarrow> 'r VectorType \<Rightarrow> 'r equispaced_1d_table" where
  "equispaced_1d_table_new x_min x_max vals =
     \<lparr> m_x_min = x_min, m_x_max = x_max, m_how_many_x = of_nat (vsize vals), m_values = vals \<rparr>"

text \<open>
  Modelled from the spec: \<^verbatim>\<open>equispaced_1d_table::get_how_many_x\<close> and
  \<^verbatim>\<open>equispaced_1d_table::set_val\<close> (overwrite one sample; the valid index range is
  \<open>[0, N)\<close>).
\<close>

definition get_how_many_x_1d :: "'r equispaced_1d_table \<Rightarrow> c_int" where
  "get_how_many_x_1d tab = m_how_many_x tab"

definition set_val_1d :: "'r equispaced_1d_table \<Rightarrow> nat \<Rightarrow> 'r \<Rightarrow> 'r equispaced_1d_table" where
  "set_val_1d tab i x = tab \<lparr> m_values := vset (m_values tab) i x \<rparr>"

text \<open>
  Modelled from the spec: the equispaced 2D table of \<^verbatim>\<open>containers/picsar_tables.hpp\<close>, a
  row-major grid over two independent axes with their bounds and resolutions; its
  constructor stores its seven arguments.
\<close>

record 'r equispaced_2d_table =
  m2_x_min :: 'r
  m2_x_max :: 'r
  m2_y_min :: 'r
  m2_y_max :: 'r
  m2_how_many_x :: c_int
  m2_how_many_y :: c_int
  m2_values :: "'r VectorType"

definition equispaced_2d_table_new ::
    "'r \<Rightarrow> 'r \<Rightarrow> 'r \<Rightarrow> 'r \<Rightarrow> c_int \<Rightarrow> c_int \<Rightarrow> 'r VectorType \<Rightarrow> 'r equispaced_2d_table" where
  "equispaced_2d_table_new x_min x_max y_min y_max how_many_x how_many_y vals =
     \<lparr> m2_x_min = x_min, m2_x_max = x_max, m2_y_min = y_min, m2_y_max = y_max,
       m2_how_many_x = how_many_x, m2_how_many_y = how_many_y, m2_values = vals \<rparr>"

text \<open>
  Modelled from the spec: \<^verbatim>\<open>get_how_many_x\<close>, \<^verbatim>\<open>get_how_many_y\<close> and \<^verbatim>\<open>set_val\<close> of the
  2D table, and \<^verbatim>\<open>get_y_coord\<close>, the coordinate of sample \<open>j\<close> of the second axis: an
  exact grid point of the equispaced axis between \<open>y_min\<close> and \<open>y_max\<close>.
\<close>

definition get_how_many_x_2d :: "'r equispaced_2d_table \<Rightarrow> c_int" where
  "get_how_many_x_2d tab = m2_how_many_x tab"

definition get_how_many_y_2d :: "'r equispaced_2d_table \<Rightarrow> c_int" where
  "get_how_many_y_2d tab = m2_how_many_y tab"

definition set_val_2d :: "'r equispaced_2d_table \<Rightarrow> nat \<Rightarrow> 'r \<Rightarrow> 'r equispaced_2d_table" where
  "set_val_2d tab i x = tab \<lparr> m2_values := vset (m2_values tab) i x \<rparr>"

definition get_y_coord :: "'r RealType \<Rightarrow> 'r equispaced_2d_table \<Rightarrow> int \<Rightarrow> 'r" where
  "get_y_coord R tab j =
     r_add R (m2_y_min tab)
       (r_div R (r_mul R (r_of_int R j) (r_sub R (m2_y_max tab) (m2_y_min tab)))
                (r_of_int R (sint (m2_how_many_y tab) - 1)))"

text \<open>
  The interpolation primitives of the two containers, \<^verbatim>\<open>equispaced_1d_table::interp\<close> and
  \<^verbatim>\<open>equispaced_2d_table::interp_first_coord\<close>, are not among the sources either. They
  are parameters: any function of what a container holds, the bounds, the resolutions and
  the samples as \<^verbatim>\<open>size()\<close> and \<^verbatim>\<open>operator[]\<close> give them, and of the query.
\<close>

record 'r picsar_tables =
  interp_1d :: "'r \<Rightarrow> 'r \<Rightarrow> c_int \<Rightarrow> nat \<Rightarrow> (nat \<Rightarrow> 'r) \<Rightarrow> 'r \<Rightarrow> 'r"
  interp_first_coord_2d ::
    "'r \<Rightarrow> 'r \<Rightarrow> 'r \<Rightarrow> 'r \<Rightarrow> c_int \<Rightarrow> c_int \<Rightarrow> nat \<Rightarrow> (nat \<Rightarrow> 'r) \<Rightarrow> 'r \<Rightarrow> int \<Rightarrow> 'r"

definition equispaced_1d_interp :: "'r picsar_tables \<Rightarrow> 'r equispaced_1d_table \<Rightarrow> 'r \<Rightarrow> 'r" where
  "equispaced_1d_interp H tab where_x =
     interp_1d H (m_x_min tab) (m_x_max tab) (m_how_many_x tab)
       (vsize (m_values tab)) (vat (m_values tab)) where_x"

definition interp_first_coord :: "'r picsar_tables \<Rightarrow> 'r equispaced_2d_table \<Rightarrow> 'r \<Rightarrow> int \<Rightarrow> 'r" where
  "interp_first_coord H tab where_x j =
     interp_first_coord_2d H (m2_x_min tab) (m2_x_max tab) (m2_y_min tab) (m2_y_max tab)
       (m2_how_many_x tab) (m2_how_many_y tab)
       (vsize (m2_values tab)) (vat (m2_values tab)) where_x j"

subsection \<open>Algorithms consumed from \<^verbatim>\<open>utils/picsar_algo.hpp\<close>\<close>

text \<open>
  Modelled from the spec: \<^verbatim>\<open>utils::picsar_upper_bound_functor\<close> is not among the
  sources. It is the upper-bound binary search over a function evaluated lazily per index:
  over \<open>[first, lst)\<close> it looks for the first index whose value is \<open>\<ge> val\<close> (not less than
  \<open>val\<close>), and gives \<open>lst\<close>, one past the last index, when there is none.
\<close>

function picsar_upper_bound_functor ::
    "('r \<Rightarrow> 'r \<Rightarrow> bool) \<Rightarrow> int \<Rightarrow> int \<Rightarrow> 'r \<Rightarrow> (int \<Rightarrow> 'r) \<Rightarrow> int" where
  "picsar_upper_bound_functor lt first lst val f =
     (if first < lst then
        (let it = first + (lst - first) div 2 in
         if lt (f it) val
         then picsar_upper_bound_functor lt (it + 1) lst val f
         else picsar_upper_bound_functor lt first it val f)
      else first)"
  by pat_completeness auto
termination
  by (relation "measure (\<lambda>(lt, first, lst, val, f). nat (lst - first))") auto

declare picsar_upper_bound_functor.simps [simp del]

text \<open>
  Modelled from the spec: \<^verbatim>\<open>utils::linear_interp\<close>, the linear interpolation between
  the two bracketing points \<open>(x0, y0)\<close> and \<open>(x1, y1)\<close>, evaluated at \<open>x\<close>.
\<close>

definition linear_interp :: "'r RealType \<Rightarrow> 'r \<Rightarrow> 'r \<Rightarrow> 'r \<Rightarrow> 'r \<Rightarrow> 'r \<Rightarrow> 'r" where
  "linear_interp R x0 x1 y0 y1 x =
     r_add R y0 (r_mul R (r_div R (r_sub R y1 y0) (r_sub R x1 x0)) (r_sub R x x0))"

subsection \<open>Byte buffers\<close>

text \<open>
  Modelled from the spec: \<^verbatim>\<open>utils/serialization.hpp\<close> is not among the sources.
  \<^verbatim>\<open>put_in\<close> appends the object representation of a plain value to a byte vector and
  \<^verbatim>\<open>get_out\<close> reads one back and advances the iterator; the reader below returns the
  bytes that follow. An \<^verbatim>\<open>int\<close> is four bytes, least significant first.
\<close>

definition put_in_int :: "c_int \<Rightarrow> byte list" where
  "put_in_int w = [ucast w, ucast (drop_bit 8 w), ucast (drop_bit 16 w), ucast (drop_bit 24 w)]"

definition get_out_int :: "byte list \<Rightarrow> c_int" where
  "get_out_int bs =
     ucast (bs ! 0) OR push_bit 8 (ucast (bs ! 1)) OR push_bit 16 (ucast (bs ! 2))
       OR push_bit 24 (ucast (bs ! 3))"

primrec get_n_out :: "'r object_repr \<Rightarrow> nat \<Rightarrow> byte list \<Rightarrow> 'r list" where
  "get_n_out P 0 bs = []"
| "get_n_out P (Suc n) bs =
     from_bytes P (take (sizeof_RealType P) bs) # get_n_out P n (drop (sizeof_RealType P) bs)"

text \<open>
  The size of a struct of \<open>k\<close> scalars followed by \<open>m\<close> \<^verbatim>\<open>int\<close> fields: the fields in
  declaration order, then the tail padding that rounds the size up to the strictest
  alignment of a field.
\<close>

definition tail_padding :: "nat \<Rightarrow> nat \<Rightarrow> nat" where
  "tail_padding align n = (align - n mod align) mod align"

definition sizeof_struct :: "'r object_repr \<Rightarrow> nat \<Rightarrow> nat \<Rightarrow> nat" where
  "sizeof_struct P k m =
     (let n = k * sizeof_RealType P + m * 4
      in n + tail_padding (max (sizeof_RealType P) 4) n)"

text \<open>The three kinds of failure of the spec, and the failed allocation of a negative size.\<close>

datatype exception = Invalid_state | Truncated_data | Format_mismatch | Length_error

text \<open>
  Modelled from the spec: \<^verbatim>\<open>equispaced_1d_table::serialize\<close> and the byte-buffer
  constructor of the 1D table. The bytes begin with the axis bounds and the resolution,
  followed by the raw sample sequence; the constructor reads them back and fails on a
  buffer that is too short for them.
\<close>

definition equispaced_1d_serialize :: "'r object_repr \<Rightarrow> 'r equispaced_1d_table \<Rightarrow> byte list" where
  "equispaced_1d_serialize P tab =
     to_bytes P (m_x_min tab) @ to_bytes P (m_x_max tab) @ put_in_int (m_how_many_x tab) @
     concat (map (to_bytes P) (take (vsize (m_values tab)) (vdata (m_values tab))))"

definition equispaced_1d_from_bytes ::
    "'r object_repr \<Rightarrow> byte list \<Rightarrow> exception + 'r equispaced_1d_table" where
  "equispaced_1d_from_bytes P raw_data =
     (let s = sizeof_RealType P in
      if length raw_data < 2 * s + 4 then Inl Truncated_data
      else
        (let x_min = from_bytes P (take s raw_data);
             x_max = from_bytes P (take s (drop s raw_data));
             how_many_x = get_out_int (drop (2 * s) raw_data);
             n = size_t_of_int (sint how_many_x);
             rest = drop (2 * s + 4) raw_data
         in if length rest < n * s then Inl Truncated_data
            else Inr \<lparr> m_x_min = x_min, m_x_max = x_max, m_how_many_x = how_many_x,
                       m_values = Vector (get_n_out P n rest) \<rparr>))"

text \<open>Modelled from the spec: the same for the 2D table, with both axes before the samples.\<close>

definition equispaced_2d_serialize :: "'r object_repr \<Rightarrow> 'r equispaced_2d_table \<Rightarrow> byte list" where
  "equispaced_2d_serialize P tab =
     to_bytes P (m2_x_min tab) @ to_bytes P (m2_x_max tab) @
     to_bytes P (m2_y_min tab) @ to_bytes P (m2_y_max tab) @
     put_in_int (m2_how_many_x tab) @ put_in_int (m2_how_many_y tab) @
     concat (map (to_bytes P) (take (vsize (m2_values tab)) (vdata (m2_values tab))))"

definition equispaced_2d_from_bytes ::
    "'r object_repr \<Rightarrow> byte list \<Rightarrow> exception + 'r equispaced_2d_table" where
  "equispaced_2d_from_bytes P raw_data =
     (let s = sizeof_RealType P in
      if length raw_data < 4 * s + 8 then Inl Truncated_data
      else
        (let x_min = from_bytes P (take s raw_data);
             x_max = from_bytes P (take s (drop s raw_data));
             y_min = from_bytes P (take s (drop (2 * s) raw_data));
             y_max = from_bytes P (take s (drop (3 * s) raw_data));
             how_many_x = get_out_int (drop (4 * s) raw_data);
             how_many_y = get_out_int (drop (4 * s + 4) raw_data);
             n = size_t_of_int (sint how_many_x * sint how_many_y);
             rest = drop (4 * s + 8) raw_data
         in if length rest < n * s then Inl Truncated_data
            else Inr \<lparr> m2_x_min = x_min, m2_x_max = x_max, m2_y_min = y_min, m2_y_max = y_max,
                       m2_how_many_x = how_many_x, m2_how_many_y = how_many_y,
                       m2_values = Vector (get_n_out P n rest) \<rparr>))"




text \<open>
  The output parameter \<^verbatim>\<open>bool* const is_out\<close>: \<open>None\<close> is the null pointer, \<open>Some b\<close> a
  pointer to a \<^verbatim>\<open>bool\<close> that holds \<open>b\<close>. \<^verbatim>\<open>if (is_out != nullptr) *is_out = true;\<close>
\<close>

definition set_is_out :: "bool option \<Rightarrow> bool option" where
  "set_is_out is_out = (case is_out of None \<Rightarrow> None | Some b \<Rightarrow> Some True)"

section \<open>The dN/dt table\<close>

record 'r dndt_lookup_table_params =
  chi_part_min :: 'r
  chi_part_max :: 'r
  chi_part_how_many :: c_int


text \<open>
  Modelled from the spec: \<^verbatim>\<open>put_in\<close> and \<^verbatim>\<open>get_out\<close> (of \<^verbatim>\<open>utils/serialization.hpp\<close>)
  at the parameter struct: the raw bytes of the record in its field order; the padding
  bytes carry no value and are written as zero.
\<close>

definition put_in_dndt_params :: "'r object_repr \<Rightarrow> 'r dndt_lookup_table_params \<Rightarrow> byte list" where
  "put_in_dndt_params P p =
     to_bytes P (chi_part_min p) @ to_bytes P (chi_part_max p) @
     put_in_int (chi_part_how_many p) @
     replicate (sizeof_struct P 2 1 - (2 * sizeof_RealType P + 4)) 0"

definition get_out_dndt_params ::
    "'r object_repr \<Rightarrow> byte list \<Rightarrow> 'r dndt_lookup_table_params \<times> byte list" where
  "get_out_dndt_params P it =
     (let s = sizeof_RealType P in
      (\<lparr> chi_part_min = from_bytes P (take s it),
         chi_part_max = from_bytes P (take s (drop s it)),
         chi_part_how_many = get_out_int (drop (2 * s) it) \<rparr>,
       drop (sizeof_struct P 2 1) it))"

record 'r dndt_lookup_table =
  m_params :: "'r dndt_lookup_table_params"
  m_init_flag :: bool
  m_table :: "'r equispaced_1d_table"

text \<open>
  \<^verbatim>\<open>dndt_lookup_table(params)\<close>: the grid is allocated, value-initialised, and the flag is
  false. \<^verbatim>\<open>VectorType(n)\<close> of a negative \<open>n\<close> asks for more than a vector can hold.
\<close>

definition dndt_lookup_table_new ::
    "'r RealType \<Rightarrow> 'r dndt_lookup_table_params \<Rightarrow> exception + 'r dndt_lookup_table" where
  "dndt_lookup_table_new R params =
     (if sint (chi_part_how_many params) < 0 then Inl Length_error
      else Inr \<lparr> m_params = params, m_init_flag = False,
                 m_table = equispaced_1d_table_new
                   (m_log R (chi_part_min params)) (m_log R (chi_part_max params))
                   (Vector (replicate (nat (sint (chi_part_how_many params))) (r_zero R))) \<rparr>)"

text \<open>\<^verbatim>\<open>dndt_lookup_table(params, vals)\<close>: built from a container of values, flag true.\<close>

definition dndt_lookup_table_of_vals ::
    "'r RealType \<Rightarrow> 'r dndt_lookup_table_params \<Rightarrow> 'r VectorType \<Rightarrow> 'r dndt_lookup_table" where
  "dndt_lookup_table_of_vals R params vals =
     \<lparr> m_params = params, m_init_flag = True,
       m_table = equispaced_1d_table_new
         (m_log R (chi_part_min params)) (m_log R (chi_part_max params)) vals \<rparr>"

text \<open>\<^verbatim>\<open>dndt_lookup_table(std::vector<char>& raw_data)\<close>.\<close>

definition dndt_lookup_table_from_bytes ::
    "'r object_repr \<Rightarrow> byte list \<Rightarrow> exception + 'r dndt_lookup_table" where
  "dndt_lookup_table_from_bytes P raw_data =
     (let min_size = 1 + sizeof_struct P 2 1 in
      if length raw_data < min_size then Inl Truncated_data
      else if hd raw_data \<noteq> of_nat (sizeof_RealType P) then Inl Format_mismatch
      else
        (let (params, it_raw_data) = get_out_dndt_params P (tl raw_data)
         in case equispaced_1d_from_bytes P it_raw_data of
              Inl e \<Rightarrow> Inl e
            | Inr tab \<Rightarrow> Inr \<lparr> m_params = params, m_init_flag = True, m_table = tab \<rparr>))"


text \<open>
  \<^verbatim>\<open>get_view\<close>: a span of \<^verbatim>\<open>chi_part_how_many\<close> elements at \<^verbatim>\<open>data()\<close> of the owner's
  samples, handed with the parameters to the two-argument constructor.
\<close>

definition dndt_get_view ::
    "'r RealType \<Rightarrow> 'r dndt_lookup_table \<Rightarrow> exception + 'r dndt_lookup_table" where
  "dndt_get_view R T =
     (if \<not> m_init_flag T then Inl Invalid_state
      else
        (let span = Span (size_t_of_int (sint (chi_part_how_many (m_params T))))
                         (vdata (m_values (m_table T)))
         in Inr (dndt_lookup_table_of_vals R (m_params T) span)))"

text \<open>
  \<^verbatim>\<open>interp(chi_part, is_out)\<close>: the value, and what the \<^verbatim>\<open>bool\<close> behind \<^verbatim>\<open>is_out\<close> holds
  afterwards.
\<close>

definition dndt_interp ::
    "'r RealType \<Rightarrow> 'r picsar_tables \<Rightarrow> 'r dndt_lookup_table \<Rightarrow> 'r \<Rightarrow> bool option
       \<Rightarrow> 'r \<times> bool option" where
  "dndt_interp R H T chi_part is_out =
     (let (chi_part', is_out') =
        (if r_lt R chi_part (chi_part_min (m_params T))
         then (chi_part_min (m_params T), set_is_out is_out)
         else if r_lt R (chi_part_max (m_params T)) chi_part
         then (chi_part_max (m_params T), set_is_out is_out)
         else (chi_part, is_out))
      in (m_exp R (equispaced_1d_interp H (m_table T) (m_log R chi_part')), is_out'))"

text \<open>\<^verbatim>\<open>set_all_vals\<close>: the returned \<^verbatim>\<open>bool\<close> and the table afterwards.\<close>

definition dndt_set_all_vals ::
    "'r RealType \<Rightarrow> 'r dndt_lookup_table \<Rightarrow> 'r list \<Rightarrow> bool \<times> 'r dndt_lookup_table" where
  "dndt_set_all_vals R T vals =
     (if length vals = size_t_of_int (sint (get_how_many_x_1d (m_table T)))
      then (True,
            T \<lparr> m_table := fold (\<lambda>i tab. set_val_1d tab i (m_log R (vals ! i)))
                             [0..<length vals] (m_table T),
                m_init_flag := True \<rparr>)
      else (False, T))"

text \<open>\<^verbatim>\<open>is_init\<close>.\<close>

definition dndt_is_init :: "'r dndt_lookup_table \<Rightarrow> bool" where
  "dndt_is_init T = m_init_flag T"

text \<open>\<^verbatim>\<open>serialize\<close>, a non-const member: the byte vector or the exception, and the table afterwards.\<close>

definition dndt_serialize ::
    "'r object_repr \<Rightarrow> 'r dndt_lookup_table
       \<Rightarrow> (exception + byte list) \<times> 'r dndt_lookup_table" where
  "dndt_serialize P T =
     (if \<not> m_init_flag T then (Inl Invalid_state, T)
      else (Inr ([of_nat (sizeof_RealType P)] @ put_in_dndt_params P (m_params T) @
                 equispaced_1d_serialize P (m_table T)), T))"

section \<open>The photon emission table\<close>

text \<open>
  The fields and members that share a name with those of the dN/dt table carry the prefix
  \<open>pe\<close>.
\<close>

record 'r photon_emission_lookup_table_params =
  pe_chi_part_min :: 'r
  pe_chi_part_max :: 'r
  frac_min :: 'r
  pe_chi_part_how_many :: c_int
  frac_how_many :: c_int


text \<open>
  Modelled from the spec: \<^verbatim>\<open>put_in\<close> and \<^verbatim>\<open>get_out\<close> (of \<^verbatim>\<open>utils/serialization.hpp\<close>)
  at the parameter struct of the photon emission table.
\<close>

definition put_in_pe_params ::
    "'r object_repr \<Rightarrow> 'r photon_emission_lookup_table_params \<Rightarrow> byte list" where
  "put_in_pe_params P p =
     to_bytes P (pe_chi_part_min p) @ to_bytes P (pe_chi_part_max p) @ to_bytes P (frac_min p) @
     put_in_int (pe_chi_part_how_many p) @ put_in_int (frac_how_many p) @
     replicate (sizeof_struct P 3 2 - (3 * sizeof_RealType P + 8)) 0"

definition get_out_pe_params ::
    "'r object_repr \<Rightarrow> byte list \<Rightarrow> 'r photon_emission_lookup_table_params \<times> byte list" where
  "get_out_pe_params P it =
     (let s = sizeof_RealType P in
      (\<lparr> pe_chi_part_min = from_bytes P (take s it),
         pe_chi_part_max = from_bytes P (take s (drop s it)),
         frac_min = from_bytes P (take s (drop (2 * s) it)),
         pe_chi_part_how_many = get_out_int (drop (3 * s) it),
         frac_how_many = get_out_int (drop (3 * s + 4) it) \<rparr>,
       drop (sizeof_struct P 3 2) it))"

record 'r photon_emission_lookup_table =
  pe_m_params :: "'r photon_emission_lookup_table_params"
  pe_m_init_flag :: bool
  pe_m_table :: "'r equispaced_2d_table"

text \<open>
  \<^verbatim>\<open>photon_emission_lookup_table(params)\<close>. The product of the two resolutions is taken
  exactly: signed overflow is undefined in C++.
\<close>

definition pe_lookup_table_new ::
    "'r RealType \<Rightarrow> 'r photon_emission_lookup_table_params
       \<Rightarrow> exception + 'r photon_emission_lookup_table" where
  "pe_lookup_table_new R params =
     (let n = sint (pe_chi_part_how_many params) * sint (frac_how_many params) in
      if n < 0 then Inl Length_error
      else Inr \<lparr> pe_m_params = params, pe_m_init_flag = False,
                 pe_m_table = equispaced_2d_table_new
                   (m_log R (pe_chi_part_min params)) (m_log R (pe_chi_part_max params))
                   (m_log R (frac_min params)) (m_log R (r_one R))
                   (pe_chi_part_how_many params) (frac_how_many params)
                   (Vector (replicate (nat n) (r_zero R))) \<rparr>)"

text \<open>\<^verbatim>\<open>photon_emission_lookup_table(params, vals)\<close>.\<close>

definition pe_lookup_table_of_vals ::
    "'r RealType \<Rightarrow> 'r photon_emission_lookup_table_params \<Rightarrow> 'r VectorType
       \<Rightarrow> 'r photon_emission_lookup_table" where
  "pe_lookup_table_of_vals R params vals =
     \<lparr> pe_m_params = params, pe_m_init_flag = True,
       pe_m_table = equispaced_2d_table_new
         (m_log R (pe_chi_part_min params)) (m_log R (pe_chi_part_max params))
         (m_log R (frac_min params)) (m_log R (r_one R))
         (pe_chi_part_how_many params) (frac_how_many params) vals \<rparr>"

text \<open>\<^verbatim>\<open>photon_emission_lookup_table(std::vector<char>& raw_data)\<close>.\<close>

definition pe_lookup_table_from_bytes ::
    "'r object_repr \<Rightarrow> byte list \<Rightarrow> exception + 'r photon_emission_lookup_table" where
  "pe_lookup_table_from_bytes P raw_data =
     (let min_size = 1 + sizeof_struct P 3 2 in
      if length raw_data < min_size then Inl Truncated_data
      else if hd raw_data \<noteq> of_nat (sizeof_RealType P) then Inl Format_mismatch
      else
        (let (params, it_raw_data) = get_out_pe_params P (tl raw_data)
         in case equispaced_2d_from_bytes P it_raw_data of
              Inl e \<Rightarrow> Inl e
            | Inr tab \<Rightarrow> Inr \<lparr> pe_m_params = params, pe_m_init_flag = True, pe_m_table = tab \<rparr>))"


text \<open>\<^verbatim>\<open>get_view\<close>: a span of \<^verbatim>\<open>chi_part_how_many * frac_how_many\<close> elements.\<close>

definition pe_get_view ::
    "'r RealType \<Rightarrow> 'r photon_emission_lookup_table
       \<Rightarrow> exception + 'r photon_emission_lookup_table" where
  "pe_get_view R T =
     (if \<not> pe_m_init_flag T then Inl Invalid_state
      else
        (let span = Span (size_t_of_int (sint (pe_chi_part_how_many (pe_m_params T)) *
                                         sint (frac_how_many (pe_m_params T))))
                         (vdata (m2_values (pe_m_table T)))
         in Inr (pe_lookup_table_of_vals R (pe_m_params T) span)))"

text \<open>
  \<^verbatim>\<open>interp(chi_part, unf_zero_one_minus_epsi, is_out)\<close>: the value, and what the
  \<^verbatim>\<open>bool\<close> behind \<^verbatim>\<open>is_out\<close> holds afterwards.
\<close>

definition pe_interp ::
    "'r RealType \<Rightarrow> 'r picsar_tables \<Rightarrow> 'r photon_emission_lookup_table \<Rightarrow> 'r \<Rightarrow> 'r
       \<Rightarrow> bool option \<Rightarrow> 'r \<times> bool option" where
  "pe_interp R H T chi_part unf_zero_one_minus_epsi is_out =
     (let (e_chi_part, is_out') =
        (if r_lt R chi_part (pe_chi_part_min (pe_m_params T))
         then (pe_chi_part_min (pe_m_params T), set_is_out is_out)
         else if r_lt R (pe_chi_part_max (pe_m_params T)) chi_part
         then (pe_chi_part_max (pe_m_params T), set_is_out is_out)
         else (chi_part, is_out));
        log_e_chi_part = m_log R e_chi_part;
        log_prob = m_log R (r_sub R (r_one R) unf_zero_one_minus_epsi);
        upper_frac_index = picsar_upper_bound_functor (r_lt R)
            0 (sint (frac_how_many (pe_m_params T))) log_prob
            (\<lambda>i. interp_first_coord H (pe_m_table T) log_e_chi_part i)
      in if upper_frac_index = 0
         then (r_mul R (frac_min (pe_m_params T)) chi_part, is_out')
         else if upper_frac_index = sint (frac_how_many (pe_m_params T))
         then (chi_part, is_out')
         else
           (let lower_frac_index = upper_frac_index - 1;
                upper_log_frac = get_y_coord R (pe_m_table T) upper_frac_index;
                lower_log_frac = get_y_coord R (pe_m_table T) lower_frac_index;
                lower_log_prob = interp_first_coord H (pe_m_table T) log_e_chi_part lower_frac_index;
                upper_log_prob = interp_first_coord H (pe_m_table T) log_e_chi_part upper_frac_index;
                log_frac = linear_interp R lower_log_prob upper_log_prob
                             lower_log_frac upper_log_frac log_prob
            in (r_mul R (m_exp R log_frac) chi_part, is_out')))"

text \<open>\<^verbatim>\<open>set_all_vals\<close>: the returned \<^verbatim>\<open>bool\<close> and the table afterwards.\<close>

definition pe_set_all_vals ::
    "'r RealType \<Rightarrow> 'r numeric_limits \<Rightarrow> 'r photon_emission_lookup_table \<Rightarrow> 'r list
       \<Rightarrow> bool \<times> 'r photon_emission_lookup_table" where
  "pe_set_all_vals R L T vals =
     (if length vals = size_t_of_int (sint (get_how_many_x_2d (pe_m_table T)) *
                                      sint (get_how_many_y_2d (pe_m_table T)))
      then (True,
            T \<lparr> pe_m_table :=
                  fold (\<lambda>i tab.
                          (let val = m_log R (vals ! i);
                               val = (if std_isinf L val then lowest L else val)
                           in set_val_2d tab i val))
                       [0..<length vals] (pe_m_table T),
                pe_m_init_flag := True \<rparr>)
      else (False, T))"

text \<open>\<^verbatim>\<open>is_init\<close>.\<close>

definition pe_is_init :: "'r photon_emission_lookup_table \<Rightarrow> bool" where
  "pe_is_init T = pe_m_init_flag T"

text \<open>\<^verbatim>\<open>serialize\<close>: the byte vector or the exception, and the table afterwards.\<close>

definition pe_serialize ::
    "'r object_repr \<Rightarrow> 'r photon_emission_lookup_table
       \<Rightarrow> (exception + byte list) \<times> 'r photon_emission_lookup_table" where
  "pe_serialize P T =
     (if \<not> pe_m_init_flag T then (Inl Invalid_state, T)
      else (Inr ([of_nat (sizeof_RealType P)] @ put_in_pe_params P (pe_m_params T) @
                 equispaced_2d_serialize P (pe_m_table T)), T))"

section \<open>The data model\<close>

text \<open>
  \<^verbatim>\<open>operator<\<close> of a floating-point type is a strict partial order (every comparison with
  a NaN is false), and so is \<open><\<close> on the reals.
\<close>

definition strict_order :: "('r \<Rightarrow> 'r \<Rightarrow> bool) \<Rightarrow> bool" where
  "strict_order lt \<longleftrightarrow> (\<forall>x. \<not> lt x x) \<and> (\<forall>x y z. lt x y \<longrightarrow> lt y z \<longrightarrow> lt x z)"

text \<open>
  An owning table whose grid is the one its parameters describe: the stored bounds are the
  logarithms of the bounds of the parameters, the resolutions are those of the parameters
  and positive, and the sample storage has one element per grid point. The constructor
  from parameters builds such a table, and \<^verbatim>\<open>set_all_vals\<close> keeps it so.
\<close>

definition owned_length :: "'r VectorType \<Rightarrow> nat \<Rightarrow> bool" where
  "owned_length v n = (case v of Vector xs \<Rightarrow> length xs = n | Span k buf \<Rightarrow> False)"

definition dndt_grid_consistent :: "'r RealType \<Rightarrow> 'r dndt_lookup_table \<Rightarrow> bool" where
  "dndt_grid_consistent R T \<longleftrightarrow>
     m_x_min (m_table T) = m_log R (chi_part_min (m_params T)) \<and>
     m_x_max (m_table T) = m_log R (chi_part_max (m_params T)) \<and>
     m_how_many_x (m_table T) = chi_part_how_many (m_params T) \<and>
     0 < sint (chi_part_how_many (m_params T)) \<and>
     owned_length (m_values (m_table T)) (nat (sint (chi_part_how_many (m_params T))))"

definition pe_grid_consistent :: "'r RealType \<Rightarrow> 'r photon_emission_lookup_table \<Rightarrow> bool" where
  "pe_grid_consistent R T \<longleftrightarrow>
     m2_x_min (pe_m_table T) = m_log R (pe_chi_part_min (pe_m_params T)) \<and>
     m2_x_max (pe_m_table T) = m_log R (pe_chi_part_max (pe_m_params T)) \<and>
     m2_y_min (pe_m_table T) = m_log R (frac_min (pe_m_params T)) \<and>
     m2_y_max (pe_m_table T) = m_log R (r_one R) \<and>
     m2_how_many_x (pe_m_table T) = pe_chi_part_how_many (pe_m_params T) \<and>
     m2_how_many_y (pe_m_table T) = frac_how_many (pe_m_params T) \<and>
     0 < sint (pe_chi_part_how_many (pe_m_params T)) \<and>
     0 < sint (frac_how_many (pe_m_params T)) \<and>
     owned_length (m2_values (pe_m_table T))
       (nat (sint (pe_chi_part_how_many (pe_m_params T)) * sint (frac_how_many (pe_m_params T))))"



section \<open>Instances on which the theorems are run\<close>

text \<open>
  Single precision as its bit patterns: a \<^verbatim>\<open>float\<close> is four bytes, least significant
  first, and \<^verbatim>\<open>operator==\<close> is the IEEE 754 comparison (a NaN equals nothing, the two
  zeros are equal).
\<close>

definition float_repr :: "32 word object_repr" where
  "float_repr = \<lparr> sizeof_RealType = 4, to_bytes = put_in_int, from_bytes = get_out_int \<rparr>"

definition float_is_nan :: "32 word \<Rightarrow> bool" where
  "float_is_nan w \<longleftrightarrow> w AND 0x7F800000 = 0x7F800000 \<and> w AND 0x007FFFFF \<noteq> 0"

definition float_eq :: "32 word \<Rightarrow> 32 word \<Rightarrow> bool" where
  "float_eq a b \<longleftrightarrow>
     \<not> float_is_nan a \<and> \<not> float_is_nan b \<and>
     (a = b \<or> (a AND 0x7FFFFFFF = 0 \<and> b AND 0x7FFFFFFF = 0))"

text \<open>
  Modelled from the spec: \<^verbatim>\<open>equispaced_1d_table::interp\<close> and
  \<^verbatim>\<open>equispaced_2d_table::interp_first_coord\<close> in exact arithmetic, an instance of the
  parameters above on which the theorems are run. The bracketing grid points are found by
  uniform-spacing arithmetic and their samples are interpolated linearly; the last grid
  point is its own sample. The grid of the 2D table is row-major, the second axis varying
  fastest.
\<close>

definition exact_interp_1d ::
    "real \<Rightarrow> real \<Rightarrow> c_int \<Rightarrow> nat \<Rightarrow> (nat \<Rightarrow> real) \<Rightarrow> real \<Rightarrow> real" where
  "exact_interp_1d x_min x_max how_many n smp where_x =
     (let N = sint how_many;
          idx_left = \<lfloor>of_int (N - 1) * (where_x - x_min) / (x_max - x_min)\<rfloor>
      in if idx_left = N - 1 then smp (nat idx_left)
         else linear_interp exact_real
                (x_min + of_int idx_left * (x_max - x_min) / of_int (N - 1))
                (x_min + of_int (idx_left + 1) * (x_max - x_min) / of_int (N - 1))
                (smp (nat idx_left)) (smp (nat (idx_left + 1))) where_x)"

definition exact_interp_first_coord ::
    "real \<Rightarrow> real \<Rightarrow> real \<Rightarrow> real \<Rightarrow> c_int \<Rightarrow> c_int \<Rightarrow> nat \<Rightarrow> (nat \<Rightarrow> real) \<Rightarrow> real \<Rightarrow> int
       \<Rightarrow> real" where
  "exact_interp_first_coord x_min x_max y_min y_max how_many_x how_many_y n smp where_x j =
     (let N = sint how_many_x; M = sint how_many_y;
          idx_left = \<lfloor>of_int (N - 1) * (where_x - x_min) / (x_max - x_min)\<rfloor>
      in if idx_left = N - 1 then smp (nat (idx_left * M + j))
         else linear_interp exact_real
                (x_min + of_int idx_left * (x_max - x_min) / of_int (N - 1))
                (x_min + of_int (idx_left + 1) * (x_max - x_min) / of_int (N - 1))
                (smp (nat (idx_left * M + j))) (smp (nat ((idx_left + 1) * M + j))) where_x)"

definition exact_tables :: "real picsar_tables" where
  "exact_tables = \<lparr> interp_1d = exact_interp_1d, interp_first_coord_2d = exact_interp_first_coord \<rparr>"

text \<open>
  The special values of IEEE arithmetic over exact reals: the two infinities and NaN beside
  the finite values, without rounding and overflow, with a single zero. Every comparison
  with NaN is false, \<open>log 0 = -\<infinity>\<close>, \<open>log +\<infinity> = +\<infinity>\<close>, and the logarithm of a negative value
  is NaN, as \<^verbatim>\<open>std::log\<close> has them.
\<close>

datatype xreal = Finite real | PInf | MInf | NaN

fun x_lt :: "xreal \<Rightarrow> xreal \<Rightarrow> bool" where
  "x_lt (Finite a) (Finite b) = (a < b)"
| "x_lt (Finite a) PInf = True"
| "x_lt MInf (Finite b) = True"
| "x_lt MInf PInf = True"
| "x_lt x y = False"

fun x_neg :: "xreal \<Rightarrow> xreal" where
  "x_neg (Finite a) = Finite (- a)"
| "x_neg PInf = MInf"
| "x_neg MInf = PInf"
| "x_neg NaN = NaN"

fun x_add :: "xreal \<Rightarrow> xreal \<Rightarrow> xreal" where
  "x_add (Finite a) (Finite b) = Finite (a + b)"
| "x_add NaN y = NaN"
| "x_add x NaN = NaN"
| "x_add PInf MInf = NaN"
| "x_add MInf PInf = NaN"
| "x_add PInf y = PInf"
| "x_add x PInf = PInf"
| "x_add MInf y = MInf"
| "x_add x MInf = MInf"

fun x_sign :: "xreal \<Rightarrow> real" where
  "x_sign (Finite a) = sgn a"
| "x_sign PInf = 1"
| "x_sign MInf = - 1"
| "x_sign NaN = 0"

definition x_inf_of_sign :: "real \<Rightarrow> xreal" where
  "x_inf_of_sign s = (if 0 < s then PInf else if s < 0 then MInf else NaN)"

fun x_mul :: "xreal \<Rightarrow> xreal \<Rightarrow> xreal" where
  "x_mul (Finite a) (Finite b) = Finite (a * b)"
| "x_mul NaN y = NaN"
| "x_mul x NaN = NaN"
| "x_mul x y = x_inf_of_sign (x_sign x * x_sign y)"

fun x_div :: "xreal \<Rightarrow> xreal \<Rightarrow> xreal" where
  "x_div (Finite a) (Finite b) = (if b = 0 then x_inf_of_sign (sgn a) else Finite (a / b))"
| "x_div NaN y = NaN"
| "x_div x NaN = NaN"
| "x_div (Finite a) y = Finite 0"
| "x_div x (Finite b) = x_inf_of_sign (x_sign x * (if b < 0 then - 1 else 1))"
| "x_div x y = NaN"

fun x_log :: "xreal \<Rightarrow> xreal" where
  "x_log (Finite a) = (if a = 0 then MInf else if a < 0 then NaN else Finite (ln a))"
| "x_log PInf = PInf"
| "x_log MInf = NaN"
| "x_log NaN = NaN"

fun x_exp :: "xreal \<Rightarrow> xreal" where
  "x_exp (Finite a) = Finite (exp a)"
| "x_exp PInf = PInf"
| "x_exp MInf = Finite 0"
| "x_exp NaN = NaN"

definition special_values :: "xreal RealType" where
  "special_values = \<lparr> r_lt = x_lt, r_add = x_add, r_sub = (\<lambda>x y. x_add x (x_neg y)),
     r_mul = x_mul, r_div = x_div, r_of_int = (\<lambda>i. Finite (of_int i)),
     r_zero = Finite 0, r_one = Finite 1, m_log = x_log, m_exp = x_exp \<rparr>"

text \<open>Its limits: the infinities, and the lowest finite value of single precision.\<close>

definition special_limits :: "xreal numeric_limits" where
  "special_limits = \<lparr> std_isinf = (\<lambda>x. x = PInf \<or> x = MInf),
     lowest = Finite (- 340282346638528859811704183484516925440) \<rparr>"


section \<open>The local variables of \<^verbatim>\<open>photon_emission_lookup_table::interp\<close>\<close>

text \<open>
  \<^verbatim>\<open>e_chi_part\<close>, the clamped \<^verbatim>\<open>chi_part\<close>; \<^verbatim>\<open>upper_frac_index\<close> and \<^verbatim>\<open>log_frac\<close> as
  functions of \<^verbatim>\<open>e_chi_part\<close> and of the draw. They name the parts of \<open>pe_interp\<close> in the
  statements below; \<open>pe_interp_fst\<close> relates them to it.
\<close>

definition pe_e_chi_part :: "'r RealType \<Rightarrow> 'r photon_emission_lookup_table \<Rightarrow> 'r \<Rightarrow> 'r" where
  "pe_e_chi_part R T chi_part =
     (if r_lt R chi_part (pe_chi_part_min (pe_m_params T)) then pe_chi_part_min (pe_m_params T)
      else if r_lt R (pe_chi_part_max (pe_m_params T)) chi_part then pe_chi_part_max (pe_m_params T)
      else chi_part)"

definition pe_upper_frac_index ::
    "'r RealType \<Rightarrow> 'r picsar_tables \<Rightarrow> 'r photon_emission_lookup_table \<Rightarrow> 'r \<Rightarrow> 'r \<Rightarrow> int" where
  "pe_upper_frac_index R H T e_chi_part unf_zero_one_minus_epsi =
     picsar_upper_bound_functor (r_lt R) 0 (sint (frac_how_many (pe_m_params T)))
       (m_log R (r_sub R (r_one R) unf_zero_one_minus_epsi))
       (\<lambda>i. interp_first_coord H (pe_m_table T) (m_log R e_chi_part) i)"

definition pe_log_frac ::
    "'r RealType \<Rightarrow> 'r picsar_tables \<Rightarrow> 'r photon_emission_lookup_table \<Rightarrow> 'r \<Rightarrow> 'r \<Rightarrow> 'r" where
  "pe_log_frac R H T e_chi_part unf_zero_one_minus_epsi =
     (let upper_frac_index = pe_upper_frac_index R H T e_chi_part unf_zero_one_minus_epsi;
          lower_frac_index = upper_frac_index - 1
      in linear_interp R
           (interp_first_coord H (pe_m_table T) (m_log R e_chi_part) lower_frac_index)
           (interp_first_coord H (pe_m_table T) (m_log R e_chi_part) upper_frac_index)
           (get_y_coord R (pe_m_table T) lower_frac_index)
           (get_y_coord R (pe_m_table T) upper_frac_index)
           (m_log R (r_sub R (r_one R) unf_zero_one_minus_epsi)))"


section \<open>Example tables\<close>

text \<open>
  A dN/dt table over exact reals with two grid points, at \<open>chi = 1\<close> and \<open>chi = e\<close>, holding
  the logarithms \<open>0\<close> and \<open>1\<close> of the rates \<open>1\<close> and \<open>e\<close>.
\<close>

definition example_dndt :: "real dndt_lookup_table" where
  "example_dndt = dndt_lookup_table_of_vals exact_real
     \<lparr> chi_part_min = 1, chi_part_max = exp 1, chi_part_how_many = 2 \<rparr> (Vector [0, 1])"

text \<open>
  A photon emission table over exact reals: two rows, at \<open>chi = 1\<close> and \<open>chi = e\<close>, and three
  fractions from \<open>exp (- 2)\<close> to \<open>1\<close>, both rows holding the log-probabilities \<open>- 3, - 2, - 1\<close>.
\<close>

definition example_pe :: "real photon_emission_lookup_table" where
  "example_pe = pe_lookup_table_of_vals exact_real
     \<lparr> pe_chi_part_min = 1, pe_chi_part_max = exp 1, frac_min = exp (- 2),
       pe_chi_part_how_many = 2, frac_how_many = 3 \<rparr>
     (Vector [- 3, - 2, - 1, - 3, - 2, - 1])"

text \<open>
  A photon emission table over the special values, one row of two fractions, not yet
  filled.
\<close>

definition example_pe_special :: "xreal photon_emission_lookup_table" where
  "example_pe_special =
     \<lparr> pe_m_params = \<lparr> pe_chi_part_min = Finite 1, pe_chi_part_max = Finite 2,
                       frac_min = Finite (1 / 2), pe_chi_part_how_many = 1, frac_how_many = 2 \<rparr>,
       pe_m_init_flag = False,
       pe_m_table = equispaced_2d_table_new (Finite 0) (Finite (ln 2)) (Finite (ln (1 / 2)))
                      (Finite 0) 1 2 (Vector [Finite 0, Finite 0]) \<rparr>"

text \<open>
  Two single-precision tables as bit patterns: \<open>0x3F800000\<close> is \<open>1.0\<close>, \<open>0x40000000\<close> is
  \<open>2.0\<close>, \<open>0x3F000000\<close> is \<open>0.5\<close>, \<open>0x3F317218\<close> and \<open>0xBF317218\<close> are the logarithms of \<open>2\<close>
  and of \<open>0.5\<close>, \<open>0xFF800000\<close> is \<open>-\<infinity>\<close>.
\<close>

definition float_dndt :: "32 word dndt_lookup_table" where
  "float_dndt =
     \<lparr> m_params = \<lparr> chi_part_min = 0x3F800000, chi_part_max = 0x40000000,
                    chi_part_how_many = 2 \<rparr>,
       m_init_flag = True,
       m_table = \<lparr> m_x_min = 0, m_x_max = 0x3F317218, m_how_many_x = 2,
                   m_values = Vector [0xFF800000, 0x3F800000] \<rparr> \<rparr>"

definition float_pe :: "32 word photon_emission_lookup_table" where
  "float_pe =
     \<lparr> pe_m_params = \<lparr> pe_chi_part_min = 0x3F800000, pe_chi_part_max = 0x40000000,
                       frac_min = 0x3F000000, pe_chi_part_how_many = 1, frac_how_many = 2 \<rparr>,
       pe_m_init_flag = True,
       pe_m_table = \<lparr> m2_x_min = 0, m2_x_max = 0x3F317218, m2_y_min = 0xBF317218, m2_y_max = 0,
                      m2_how_many_x = 1, m2_how_many_y = 2,
                      m2_values = Vector [0xBF317218, 0] \<rparr> \<rparr>"

section \<open>Basic facts\<close>

lemma set_is_out_None: "set_is_out None = None"
  by (simp add: set_is_out_def)

lemma set_is_out_Some: "set_is_out (Some b) = Some True"
  by (simp add: set_is_out_def)

lemma strict_order_asym: "strict_order lt \<Longrightarrow> lt x y \<Longrightarrow> \<not> lt y x"
  unfolding strict_order_def by blast

lemma strict_order_trans: "strict_order lt \<Longrightarrow> lt x y \<Longrightarrow> lt y z \<Longrightarrow> lt x z"
  unfolding strict_order_def by blast

lemma strict_order_irrefl: "strict_order lt \<Longrightarrow> \<not> lt x x"
  unfolding strict_order_def by blast

lemma strict_order_real: "strict_order ((<) :: real \<Rightarrow> real \<Rightarrow> bool)"
  by (auto simp: strict_order_def)

lemma exact_real_simps:
  "r_lt exact_real = (<)" "r_add exact_real = (+)" "r_sub exact_real = (-)"
  "r_mul exact_real = (*)" "r_div exact_real = (/)" "r_of_int exact_real = of_int"
  "r_zero exact_real = 0" "r_one exact_real = 1" "m_log exact_real = ln" "m_exp exact_real = exp"
  by (simp_all add: exact_real_def)

lemma special_simps:
  "m_log special_values = x_log" "r_zero special_values = Finite 0"
  "std_isinf special_limits = (\<lambda>x. x = PInf \<or> x = MInf)"
  "lowest special_limits = Finite (- 340282346638528859811704183484516925440)"
  by (simp_all add: special_values_def special_limits_def)

lemma float_repr_simps:
  "sizeof_RealType float_repr = 4" "to_bytes float_repr = put_in_int"
  "from_bytes float_repr = get_out_int"
  by (simp_all add: float_repr_def)

lemma sizeof_struct_float:
  "sizeof_struct float_repr 2 1 = 12" "sizeof_struct float_repr 2 (Suc 0) = 12"
  "sizeof_struct float_repr 3 2 = 20"
  by (simp_all add: sizeof_struct_def tail_padding_def float_repr_simps)

subsection \<open>Resolutions as sizes\<close>

lemma sint_c_int_less: "sint (w :: c_int) < 2147483648"
  using sint_lt [of w] by simp

lemma size_t_of_int_nonneg:
  "0 \<le> i \<Longrightarrow> i < 2 ^ 64 \<Longrightarrow> size_t_of_int i = nat i"
  by (simp add: size_t_of_int_def)

lemma size_t_of_sint:
  "0 \<le> sint (w :: c_int) \<Longrightarrow> size_t_of_int (sint w) = nat (sint w)"
  using sint_c_int_less [of w] by (simp add: size_t_of_int_nonneg)

lemma size_t_of_sint_product:
  assumes "0 < sint (v :: c_int)" "0 < sint (w :: c_int)"
  shows "size_t_of_int (sint v * sint w) = nat (sint v * sint w)"
proof -
  have "sint v * sint w \<le> 2147483648 * 2147483648"
    using assms sint_c_int_less [of v] sint_c_int_less [of w]
    by (intro mult_mono) simp_all
  then have "sint v * sint w < 2 ^ 64" by simp
  moreover have "0 \<le> sint v * sint w" using assms by simp
  ultimately show ?thesis by (rule size_t_of_int_nonneg [rotated])
qed

lemma of_nat_nat_sint: "0 \<le> sint (w :: c_int) \<Longrightarrow> of_nat (nat (sint w)) = w"
  by (simp add: of_nat_nat)

lemma owned_lengthD: "owned_length v n \<Longrightarrow> \<exists>xs. v = Vector xs \<and> length xs = n"
  by (cases v) (simp_all add: owned_length_def)

lemma dndt_grid_count:
  "dndt_grid_consistent R T \<Longrightarrow>
   size_t_of_int (sint (get_how_many_x_1d (m_table T))) = nat (sint (chi_part_how_many (m_params T)))"
  by (simp add: dndt_grid_consistent_def get_how_many_x_1d_def size_t_of_sint)

lemma pe_grid_count:
  assumes "pe_grid_consistent R T"
  shows "size_t_of_int (sint (get_how_many_x_2d (pe_m_table T)) * sint (get_how_many_y_2d (pe_m_table T)))
     = nat (sint (pe_chi_part_how_many (pe_m_params T)) * sint (frac_how_many (pe_m_params T)))"
proof -
  from assms have "0 < sint (pe_chi_part_how_many (pe_m_params T))"
      "0 < sint (frac_how_many (pe_m_params T))"
      "m2_how_many_x (pe_m_table T) = pe_chi_part_how_many (pe_m_params T)"
      "m2_how_many_y (pe_m_table T) = frac_how_many (pe_m_params T)"
    by (simp_all add: pe_grid_consistent_def)
  then show ?thesis
    by (simp add: get_how_many_x_2d_def get_how_many_y_2d_def size_t_of_sint_product)
qed

subsection \<open>The example tables\<close>

lemma example_dndt_params:
  "chi_part_min (m_params example_dndt) = 1"
  "chi_part_max (m_params example_dndt) = exp 1"
  "chi_part_how_many (m_params example_dndt) = 2"
  "m_init_flag example_dndt"
  by (simp_all add: example_dndt_def dndt_lookup_table_of_vals_def)

lemma example_pe_params:
  "pe_chi_part_min (pe_m_params example_pe) = 1"
  "pe_chi_part_max (pe_m_params example_pe) = exp 1"
  "frac_min (pe_m_params example_pe) = exp (- 2)"
  "pe_chi_part_how_many (pe_m_params example_pe) = 2"
  "frac_how_many (pe_m_params example_pe) = 3"
  "pe_m_init_flag example_pe"
  by (simp_all add: example_pe_def pe_lookup_table_of_vals_def)

lemma example_dndt_consistent: "dndt_grid_consistent exact_real example_dndt"
  by (simp add: dndt_grid_consistent_def example_dndt_def dndt_lookup_table_of_vals_def
      equispaced_1d_table_new_def owned_length_def)

lemma example_pe_consistent: "pe_grid_consistent exact_real example_pe"
  by (simp add: pe_grid_consistent_def example_pe_def pe_lookup_table_of_vals_def
      equispaced_2d_table_new_def owned_length_def)

section \<open>Clamped interpolation of the dN/dt table\<close>

text \<open>
  The value and the flag of \<^verbatim>\<open>dndt_lookup_table::interp\<close>, branch by branch.
\<close>

lemma dndt_interp_below:
  "r_lt R chi_part (chi_part_min (m_params T)) \<Longrightarrow>
   dndt_interp R H T chi_part is_out =
     (m_exp R (equispaced_1d_interp H (m_table T) (m_log R (chi_part_min (m_params T)))),
      set_is_out is_out)"
  by (simp add: dndt_interp_def)

lemma dndt_interp_above:
  "\<not> r_lt R chi_part (chi_part_min (m_params T)) \<Longrightarrow>
   r_lt R (chi_part_max (m_params T)) chi_part \<Longrightarrow>
   dndt_interp R H T chi_part is_out =
     (m_exp R (equispaced_1d_interp H (m_table T) (m_log R (chi_part_max (m_params T)))),
      set_is_out is_out)"
  by (simp add: dndt_interp_def)

lemma dndt_interp_inside:
  "\<not> r_lt R chi_part (chi_part_min (m_params T)) \<Longrightarrow>
   \<not> r_lt R (chi_part_max (m_params T)) chi_part \<Longrightarrow>
   dndt_interp R H T chi_part is_out =
     (m_exp R (equispaced_1d_interp H (m_table T) (m_log R chi_part)), is_out)"
  by (simp add: dndt_interp_def)

text \<open>
  Claim C3. In a dN/dt table whose bounds are ordered as the data model has them,
  \<open>chi_part_min < chi_part_max\<close>, every \<open>chi_part\<close> below \<open>chi_part_min\<close> is interpolated to
  the value at \<open>chi_part_min\<close>, every \<open>chi_part\<close> above \<open>chi_part_max\<close> to the value at
  \<open>chi_part_max\<close>, and in both cases a non-null \<^verbatim>\<open>is_out\<close> points to \<open>true\<close> afterwards. This
  holds whatever the arithmetic of \<^verbatim>\<open>RealType\<close> and the interpolation of the inner table
  compute.
\<close>

theorem dndt_interp_clamps:
  assumes ord: "strict_order (r_lt R)"
    and bounds: "r_lt R (chi_part_min (m_params T)) (chi_part_max (m_params T))"
  shows "(r_lt R chi_part (chi_part_min (m_params T)) \<longrightarrow>
            fst (dndt_interp R H T chi_part is_out) =
              fst (dndt_interp R H T (chi_part_min (m_params T)) is_out') \<and>
            snd (dndt_interp R H T chi_part (Some b)) = Some True)
       \<and> (r_lt R (chi_part_max (m_params T)) chi_part \<longrightarrow>
            fst (dndt_interp R H T chi_part is_out) =
              fst (dndt_interp R H T (chi_part_max (m_params T)) is_out') \<and>
            snd (dndt_interp R H T chi_part (Some b)) = Some True)"
proof -
  let ?lo = "chi_part_min (m_params T)" and ?hi = "chi_part_max (m_params T)"
  have lo_in: "\<not> r_lt R ?lo ?lo" "\<not> r_lt R ?hi ?lo"
    using ord bounds by (auto dest: strict_order_irrefl strict_order_asym)
  have hi_in: "\<not> r_lt R ?hi ?hi"
    using ord by (auto dest: strict_order_irrefl)
  have at_lo: "fst (dndt_interp R H T ?lo is_out') =
      m_exp R (equispaced_1d_interp H (m_table T) (m_log R ?lo))"
    using lo_in by (simp add: dndt_interp_inside)
  have at_hi: "fst (dndt_interp R H T ?hi is_out') =
      m_exp R (equispaced_1d_interp H (m_table T) (m_log R ?hi))"
    using lo_in hi_in by (simp add: dndt_interp_inside)
  have not_below: "\<not> r_lt R chi_part ?lo" if above: "r_lt R ?hi chi_part"
  proof
    assume "r_lt R chi_part ?lo"
    with above have "r_lt R ?hi ?lo" using ord by (blast dest: strict_order_trans)
    with lo_in show False by simp
  qed
  show ?thesis
  proof (intro conjI impI)
    assume "r_lt R chi_part ?lo"
    then show "fst (dndt_interp R H T chi_part is_out) = fst (dndt_interp R H T ?lo is_out')"
      by (simp add: at_lo dndt_interp_below)
  next
    assume "r_lt R chi_part ?lo"
    then show "snd (dndt_interp R H T chi_part (Some b)) = Some True"
      by (simp add: dndt_interp_below set_is_out_Some)
  next
    assume above: "r_lt R ?hi chi_part"
    with not_below
    show "fst (dndt_interp R H T chi_part is_out) = fst (dndt_interp R H T ?hi is_out')"
      by (simp add: at_hi dndt_interp_above)
  next
    assume above: "r_lt R ?hi chi_part"
    with not_below show "snd (dndt_interp R H T chi_part (Some b)) = Some True"
      by (simp add: dndt_interp_above set_is_out_Some)
  qed
qed

theorem dndt_interp_clamps_witness:
  "strict_order (r_lt exact_real) \<and>
   r_lt exact_real (chi_part_min (m_params example_dndt)) (chi_part_max (m_params example_dndt)) \<and>
   r_lt exact_real (1 / 2) (chi_part_min (m_params example_dndt)) \<and>
   r_lt exact_real (chi_part_max (m_params example_dndt)) (exp 2) \<and>
   fst (dndt_interp exact_real exact_tables example_dndt (1 / 2) None) =
     fst (dndt_interp exact_real exact_tables example_dndt 1 None) \<and>
   snd (dndt_interp exact_real exact_tables example_dndt (1 / 2) (Some False)) = Some True \<and>
   fst (dndt_interp exact_real exact_tables example_dndt (exp 2) None) =
     fst (dndt_interp exact_real exact_tables example_dndt (exp 1) None) \<and>
   snd (dndt_interp exact_real exact_tables example_dndt (exp 2) (Some False)) = Some True"
proof -
  have ord: "strict_order (r_lt exact_real)"
    by (simp add: exact_real_simps strict_order_real)
  have bounds: "r_lt exact_real (chi_part_min (m_params example_dndt))
      (chi_part_max (m_params example_dndt))"
    by (simp add: exact_real_simps example_dndt_params)
  have lo: "r_lt exact_real (1 / 2) (chi_part_min (m_params example_dndt))"
    by (simp add: exact_real_simps example_dndt_params)
  have hi: "r_lt exact_real (chi_part_max (m_params example_dndt)) (exp 2)"
    by (simp add: exact_real_simps example_dndt_params)
  show ?thesis
    using dndt_interp_clamps [OF ord bounds, of "1 / 2" exact_tables None None False]
      dndt_interp_clamps [OF ord bounds, of "exp 2" exact_tables None None False]
      ord bounds lo hi
    by (simp add: example_dndt_params)
qed

section \<open>The output parameter of both interpolations\<close>

lemma dndt_interp_snd:
  "snd (dndt_interp R H T chi_part is_out) =
     (if r_lt R chi_part (chi_part_min (m_params T)) \<or> r_lt R (chi_part_max (m_params T)) chi_part
      then set_is_out is_out else is_out)"
  by (simp add: dndt_interp_def)

lemma pe_interp_snd:
  "snd (pe_interp R H T chi_part u is_out) =
     (if r_lt R chi_part (pe_chi_part_min (pe_m_params T)) \<or>
         r_lt R (pe_chi_part_max (pe_m_params T)) chi_part
      then set_is_out is_out else is_out)"
  by (simp add: pe_interp_def Let_def)

text \<open>
  Claim C9. For both table kinds \<^verbatim>\<open>interp\<close> never writes \<open>false\<close> through \<^verbatim>\<open>is_out\<close>: for a
  \<open>chi_part\<close> that is neither below \<open>chi_part_min\<close> nor above \<open>chi_part_max\<close> the \<^verbatim>\<open>bool\<close>
  behind a non-null pointer is what it was; on every path a null pointer stays untouched,
  and a \<^verbatim>\<open>bool\<close> that is written is written \<open>true\<close>.
\<close>

theorem interp_is_out_frame:
  "(\<not> r_lt R chi_part (chi_part_min (m_params T)) \<and>
    \<not> r_lt R (chi_part_max (m_params T)) chi_part \<longrightarrow>
      snd (dndt_interp R H T chi_part is_out) = is_out) \<and>
   (\<not> r_lt R chi_part (pe_chi_part_min (pe_m_params T')) \<and>
    \<not> r_lt R (pe_chi_part_max (pe_m_params T')) chi_part \<longrightarrow>
      snd (pe_interp R H T' chi_part u is_out) = is_out) \<and>
   snd (dndt_interp R H T chi_part None) = None \<and>
   snd (pe_interp R H T' chi_part u None) = None \<and>
   (snd (dndt_interp R H T chi_part (Some b)) = Some b \<or>
    snd (dndt_interp R H T chi_part (Some b)) = Some True) \<and>
   (snd (pe_interp R H T' chi_part u (Some b)) = Some b \<or>
    snd (pe_interp R H T' chi_part u (Some b)) = Some True)"
  by (simp add: dndt_interp_snd pe_interp_snd set_is_out_None set_is_out_Some)

theorem interp_is_out_frame_witness:
  "\<not> r_lt exact_real 1 (chi_part_min (m_params example_dndt)) \<and>
   \<not> r_lt exact_real (chi_part_max (m_params example_dndt)) 1 \<and>
   \<not> r_lt exact_real 1 (pe_chi_part_min (pe_m_params example_pe)) \<and>
   \<not> r_lt exact_real (pe_chi_part_max (pe_m_params example_pe)) 1 \<and>
   snd (dndt_interp exact_real exact_tables example_dndt 1 (Some False)) = Some False \<and>
   snd (pe_interp exact_real exact_tables example_pe 1 0 (Some False)) = Some False \<and>
   snd (dndt_interp exact_real exact_tables example_dndt 1 None) = None \<and>
   snd (pe_interp exact_real exact_tables example_pe 1 0 None) = None"
  using interp_is_out_frame [where R = exact_real and H = exact_tables and T = example_dndt
      and T' = example_pe and chi_part = 1 and u = 0 and is_out = "Some False" and b = False]
  by (simp add: exact_real_simps example_dndt_params example_pe_params)

section \<open>Importing values\<close>

subsection \<open>The loop over the values\<close>

lemma fold_set_val_1d:
  "n \<le> length xs \<Longrightarrow> m_values tab = Vector xs \<Longrightarrow>
   fold (\<lambda>i tab. set_val_1d tab i (g i)) [0..<n] tab =
     tab \<lparr> m_values := Vector (map g [0..<n] @ drop n xs) \<rparr>"
proof (induction n)
  case 0
  then show ?case by simp
next
  case (Suc n)
  then have "fold (\<lambda>i tab. set_val_1d tab i (g i)) [0..<Suc n] tab =
      set_val_1d (tab \<lparr> m_values := Vector (map g [0..<n] @ drop n xs) \<rparr>) n (g n)"
    by simp
  also have "\<dots> = tab \<lparr> m_values := Vector ((map g [0..<n] @ drop n xs)[n := g n]) \<rparr>"
    by (simp add: set_val_1d_def)
  also have "(map g [0..<n] @ drop n xs)[n := g n] = map g [0..<Suc n] @ drop (Suc n) xs"
    using Suc.prems by (simp add: list_update_append Cons_nth_drop_Suc [symmetric] del: upt_Suc)
       (simp add: upd_conv_take_nth_drop)
  finally show ?case .
qed

lemma fold_set_val_2d:
  "n \<le> length xs \<Longrightarrow> m2_values tab = Vector xs \<Longrightarrow>
   fold (\<lambda>i tab. set_val_2d tab i (g i)) [0..<n] tab =
     tab \<lparr> m2_values := Vector (map g [0..<n] @ drop n xs) \<rparr>"
proof (induction n)
  case 0
  then show ?case by simp
next
  case (Suc n)
  then have "fold (\<lambda>i tab. set_val_2d tab i (g i)) [0..<Suc n] tab =
      set_val_2d (tab \<lparr> m2_values := Vector (map g [0..<n] @ drop n xs) \<rparr>) n (g n)"
    by simp
  also have "\<dots> = tab \<lparr> m2_values := Vector ((map g [0..<n] @ drop n xs)[n := g n]) \<rparr>"
    by (simp add: set_val_2d_def)
  also have "(map g [0..<n] @ drop n xs)[n := g n] = map g [0..<Suc n] @ drop (Suc n) xs"
    using Suc.prems by (simp add: list_update_append Cons_nth_drop_Suc [symmetric] del: upt_Suc)
       (simp add: upd_conv_take_nth_drop)
  finally show ?case .
qed

lemma map_nth_upt: "map (\<lambda>i. g (vals ! i)) [0..<length vals] = map g vals"
  by (simp add: map_equality_iff)

lemma dndt_set_all_vals_stored:
  assumes own: "m_values (m_table T) = Vector xs" "length xs = length vals"
    and len: "length vals = size_t_of_int (sint (get_how_many_x_1d (m_table T)))"
  shows "dndt_set_all_vals R T vals =
     (True, T \<lparr> m_table := (m_table T) \<lparr> m_values := Vector (map (m_log R) vals) \<rparr>,
                m_init_flag := True \<rparr>)"
proof -
  have "fold (\<lambda>i tab. set_val_1d tab i (m_log R (vals ! i))) [0..<length vals] (m_table T)
        = (m_table T) \<lparr> m_values :=
            Vector (map (\<lambda>i. m_log R (vals ! i)) [0..<length vals] @ drop (length vals) xs) \<rparr>"
    using own by (intro fold_set_val_1d) simp_all
  also have "map (\<lambda>i. m_log R (vals ! i)) [0..<length vals] = map (m_log R) vals"
    by (rule map_nth_upt)
  finally show ?thesis
    using len own by (simp add: dndt_set_all_vals_def)
qed

lemma pe_set_all_vals_stored:
  assumes own: "m2_values (pe_m_table T) = Vector xs" "length xs = length vals"
    and len: "length vals = size_t_of_int (sint (get_how_many_x_2d (pe_m_table T)) *
                                          sint (get_how_many_y_2d (pe_m_table T)))"
  shows "pe_set_all_vals R L T vals =
     (True, T \<lparr> pe_m_table := (pe_m_table T) \<lparr> m2_values :=
                  Vector (map (\<lambda>v. if std_isinf L (m_log R v) then lowest L else m_log R v) vals) \<rparr>,
                pe_m_init_flag := True \<rparr>)"
proof -
  let ?g = "\<lambda>v. if std_isinf L (m_log R v) then lowest L else m_log R v"
  have "fold (\<lambda>i tab. (let val = m_log R (vals ! i);
                           val = (if std_isinf L val then lowest L else val)
                       in set_val_2d tab i val)) [0..<length vals] (pe_m_table T)
        = fold (\<lambda>i tab. set_val_2d tab i (?g (vals ! i))) [0..<length vals] (pe_m_table T)"
    by (simp add: Let_def)
  also have "\<dots> = (pe_m_table T) \<lparr> m2_values :=
      Vector (map (\<lambda>i. ?g (vals ! i)) [0..<length vals] @ drop (length vals) xs) \<rparr>"
    using own by (intro fold_set_val_2d) simp_all
  also have "map (\<lambda>i. ?g (vals ! i)) [0..<length vals] = map ?g vals"
    by (rule map_nth_upt)
  finally show ?thesis
    using len own by (simp add: pe_set_all_vals_def)
qed

text \<open>
  Tables built through the constructors and \<^verbatim>\<open>set_all_vals\<close> are grid-consistent.
\<close>

lemma dndt_lookup_table_new_consistent:
  assumes "0 < sint (chi_part_how_many params)"
  shows "\<exists>T. dndt_lookup_table_new R params = Inr T \<and> dndt_grid_consistent R T \<and> \<not> m_init_flag T"
  using assms
  by (simp add: dndt_lookup_table_new_def dndt_grid_consistent_def equispaced_1d_table_new_def
      owned_length_def of_nat_nat_sint)

lemma pe_lookup_table_new_consistent:
  assumes "0 < sint (pe_chi_part_how_many params)" "0 < sint (frac_how_many params)"
  shows "\<exists>T. pe_lookup_table_new R params = Inr T \<and> pe_grid_consistent R T \<and> \<not> pe_m_init_flag T"
  using assms
  by (simp add: pe_lookup_table_new_def pe_grid_consistent_def equispaced_2d_table_new_def
      owned_length_def Let_def not_less mult_nonneg_nonneg)

lemma dndt_set_all_vals_consistent:
  assumes "dndt_grid_consistent R T"
  shows "dndt_grid_consistent R (snd (dndt_set_all_vals R T vals))"
proof (cases "length vals = size_t_of_int (sint (get_how_many_x_1d (m_table T)))")
  case False
  with assms show ?thesis by (simp add: dndt_set_all_vals_def)
next
  case True
  from assms obtain xs where xs: "m_values (m_table T) = Vector xs"
      "length xs = nat (sint (chi_part_how_many (m_params T)))"
    unfolding dndt_grid_consistent_def by (blast dest: owned_lengthD)
  have "length xs = length vals"
    using True xs dndt_grid_count [OF assms] by simp
  from dndt_set_all_vals_stored [OF xs(1) this True, of R] assms xs \<open>length xs = length vals\<close>
  show ?thesis
    by (simp add: dndt_grid_consistent_def owned_length_def)
qed

lemma pe_set_all_vals_consistent:
  assumes "pe_grid_consistent R T"
  shows "pe_grid_consistent R (snd (pe_set_all_vals R L T vals))"
proof (cases "length vals = size_t_of_int (sint (get_how_many_x_2d (pe_m_table T)) *
                                           sint (get_how_many_y_2d (pe_m_table T)))")
  case False
  with assms show ?thesis by (simp add: pe_set_all_vals_def)
next
  case True
  from assms obtain xs where xs: "m2_values (pe_m_table T) = Vector xs"
      "length xs = nat (sint (pe_chi_part_how_many (pe_m_params T)) *
                        sint (frac_how_many (pe_m_params T)))"
    unfolding pe_grid_consistent_def by (blast dest: owned_lengthD)
  have "length xs = length vals"
    using True xs pe_grid_count [OF assms] by simp
  from pe_set_all_vals_stored [OF xs(1) this True, of R L] assms xs \<open>length xs = length vals\<close>
  show ?thesis
    by (simp add: pe_grid_consistent_def owned_length_def)
qed



text \<open>
  Claim C8, as stated: every element other than zero is stored as its logarithm. It is not
  when the element is plus infinity: its logarithm is plus infinity, which
  \<^verbatim>\<open>std::isinf\<close> catches as it catches the minus infinity of zero, and the lowest finite
  value is stored in its place.
\<close>

theorem pe_set_all_vals_infinite_input_counterexample:
  "PInf \<noteq> r_zero special_values \<and>
   length [PInf, Finite 1] =
     size_t_of_int (sint (get_how_many_x_2d (pe_m_table example_pe_special)) *
                    sint (get_how_many_y_2d (pe_m_table example_pe_special))) \<and>
   m_log special_values PInf = PInf \<and>
   m2_values (pe_m_table (snd (pe_set_all_vals special_values special_limits example_pe_special
                                 [PInf, Finite 1]))) =
     Vector [lowest special_limits, Finite 0] \<and>
   lowest special_limits \<noteq> m_log special_values PInf"
proof -
  have own: "m2_values (pe_m_table example_pe_special) = Vector [Finite 0, Finite 0]"
      "length [Finite 0, Finite 0] = length [PInf, Finite 1]"
    by (simp_all add: example_pe_special_def equispaced_2d_table_new_def)
  have len: "length [PInf, Finite 1] =
     size_t_of_int (sint (get_how_many_x_2d (pe_m_table example_pe_special)) *
                    sint (get_how_many_y_2d (pe_m_table example_pe_special)))"
    by (simp add: example_pe_special_def equispaced_2d_table_new_def get_how_many_x_2d_def
        get_how_many_y_2d_def size_t_of_int_def)
  show ?thesis
    using len
    by (simp add: pe_set_all_vals_stored [OF own len] special_simps)
qed

text \<open>
  Claim C8, amended. For a photon emission table that owns one sample per element of the
  input, and an input of the length of the grid, \<^verbatim>\<open>set_all_vals\<close> returns \<open>true\<close>, sets the
  initialization flag and stores for each element \<open>v\<close> its logarithm, except that a
  logarithm which is infinite is replaced by the lowest finite value of \<^verbatim>\<open>RealType\<close>: an
  element that is exactly zero, whose logarithm is minus infinity, is stored as the lowest
  finite value, and every element with a finite logarithm is stored as that logarithm.
\<close>

theorem pe_set_all_vals_stores_logs:
  assumes own: "owned_length (m2_values (pe_m_table T)) (length vals)"
    and len: "length vals = size_t_of_int (sint (get_how_many_x_2d (pe_m_table T)) *
                                          sint (get_how_many_y_2d (pe_m_table T)))"
  shows "fst (pe_set_all_vals R L T vals) = True \<and>
     pe_m_init_flag (snd (pe_set_all_vals R L T vals)) \<and>
     m2_values (pe_m_table (snd (pe_set_all_vals R L T vals))) =
       Vector (map (\<lambda>v. if std_isinf L (m_log R v) then lowest L else m_log R v) vals) \<and>
     (\<forall>i < length vals.
        (vals ! i = r_zero R \<and> std_isinf L (m_log R (r_zero R)) \<longrightarrow>
           vat (m2_values (pe_m_table (snd (pe_set_all_vals R L T vals)))) i = lowest L) \<and>
        (\<not> std_isinf L (m_log R (vals ! i)) \<longrightarrow>
           vat (m2_values (pe_m_table (snd (pe_set_all_vals R L T vals)))) i = m_log R (vals ! i)))"
proof -
  from own obtain xs where xs: "m2_values (pe_m_table T) = Vector xs" "length xs = length vals"
    by (blast dest: owned_lengthD)
  note st = pe_set_all_vals_stored [OF xs len, of R L]
  show ?thesis
    unfolding st by (simp add: vat_def)
qed

theorem pe_set_all_vals_stores_logs_witness:
  "owned_length (m2_values (pe_m_table example_pe_special)) (length [Finite 0, Finite 1]) \<and>
   length [Finite 0, Finite 1] =
     size_t_of_int (sint (get_how_many_x_2d (pe_m_table example_pe_special)) *
                    sint (get_how_many_y_2d (pe_m_table example_pe_special))) \<and>
   m_log special_values (Finite 0) = MInf \<and> std_isinf special_limits MInf \<and>
   fst (pe_set_all_vals special_values special_limits example_pe_special [Finite 0, Finite 1]) = True \<and>
   pe_m_init_flag (snd (pe_set_all_vals special_values special_limits example_pe_special
                          [Finite 0, Finite 1])) \<and>
   m2_values (pe_m_table (snd (pe_set_all_vals special_values special_limits example_pe_special
                                 [Finite 0, Finite 1]))) =
     Vector [lowest special_limits, Finite 0]"
proof -
  have own: "owned_length (m2_values (pe_m_table example_pe_special)) (length [Finite 0, Finite 1])"
    by (simp add: example_pe_special_def equispaced_2d_table_new_def owned_length_def)
  have len: "length [Finite 0, Finite 1] =
     size_t_of_int (sint (get_how_many_x_2d (pe_m_table example_pe_special)) *
                    sint (get_how_many_y_2d (pe_m_table example_pe_special)))"
    by (simp add: example_pe_special_def equispaced_2d_table_new_def get_how_many_x_2d_def
        get_how_many_y_2d_def size_t_of_int_def)
  show ?thesis
    using pe_set_all_vals_stores_logs [OF own len, of special_values special_limits] own len
    by (simp add: special_simps)
qed

section \<open>Views\<close>

lemma dndt_get_view_uninit: "\<not> m_init_flag T \<Longrightarrow> dndt_get_view R T = Inl Invalid_state"
  by (simp add: dndt_get_view_def)

lemma dndt_get_view_init:
  "m_init_flag T \<Longrightarrow>
   dndt_get_view R T = Inr (dndt_lookup_table_of_vals R (m_params T)
     (Span (size_t_of_int (sint (chi_part_how_many (m_params T)))) (vdata (m_values (m_table T)))))"
  by (simp add: dndt_get_view_def)

lemma pe_get_view_uninit: "\<not> pe_m_init_flag T \<Longrightarrow> pe_get_view R T = Inl Invalid_state"
  by (simp add: pe_get_view_def)

lemma pe_get_view_init:
  "pe_m_init_flag T \<Longrightarrow>
   pe_get_view R T = Inr (pe_lookup_table_of_vals R (pe_m_params T)
     (Span (size_t_of_int (sint (pe_chi_part_how_many (pe_m_params T)) *
                           sint (frac_how_many (pe_m_params T))))
           (vdata (m2_values (pe_m_table T)))))"
  by (simp add: pe_get_view_def)

text \<open>
  Claim C6. For a table of either kind whose initialization flag is false, \<^verbatim>\<open>get_view\<close>
  and \<^verbatim>\<open>serialize\<close> fail with the invalid-state exception; no view and no byte vector is
  returned and the table is as before. When the flag is true, \<^verbatim>\<open>get_view\<close> returns a table
  with the same parameters whose storage is a span over the samples of the owner.
\<close>

theorem uninitialized_table_fails:
  "(\<not> m_init_flag T \<longrightarrow>
      dndt_get_view R T = Inl Invalid_state \<and> dndt_serialize P T = (Inl Invalid_state, T)) \<and>
   (\<not> pe_m_init_flag T' \<longrightarrow>
      pe_get_view R T' = Inl Invalid_state \<and> pe_serialize P T' = (Inl Invalid_state, T')) \<and>
   (m_init_flag T \<longrightarrow>
      (\<exists>V. dndt_get_view R T = Inr V \<and> m_params V = m_params T \<and>
           m_values (m_table V) =
             Span (size_t_of_int (sint (chi_part_how_many (m_params T))))
                  (vdata (m_values (m_table T))))) \<and>
   (pe_m_init_flag T' \<longrightarrow>
      (\<exists>V. pe_get_view R T' = Inr V \<and> pe_m_params V = pe_m_params T' \<and>
           m2_values (pe_m_table V) =
             Span (size_t_of_int (sint (pe_chi_part_how_many (pe_m_params T')) *
                                  sint (frac_how_many (pe_m_params T'))))
                  (vdata (m2_values (pe_m_table T')))))"
  by (simp add: dndt_get_view_uninit pe_get_view_uninit dndt_get_view_init pe_get_view_init
      dndt_serialize_def pe_serialize_def dndt_lookup_table_of_vals_def pe_lookup_table_of_vals_def
      equispaced_1d_table_new_def equispaced_2d_table_new_def)

theorem uninitialized_table_fails_witness:
  "\<not> m_init_flag (example_dndt \<lparr> m_init_flag := False \<rparr>) \<and>
   \<not> pe_m_init_flag (example_pe \<lparr> pe_m_init_flag := False \<rparr>) \<and>
   dndt_get_view exact_real (example_dndt \<lparr> m_init_flag := False \<rparr>) = Inl Invalid_state \<and>
   pe_get_view exact_real (example_pe \<lparr> pe_m_init_flag := False \<rparr>) = Inl Invalid_state \<and>
   \<not> m_init_flag (float_dndt \<lparr> m_init_flag := False \<rparr>) \<and>
   \<not> pe_m_init_flag (float_pe \<lparr> pe_m_init_flag := False \<rparr>) \<and>
   dndt_serialize float_repr (float_dndt \<lparr> m_init_flag := False \<rparr>) =
     (Inl Invalid_state, float_dndt \<lparr> m_init_flag := False \<rparr>) \<and>
   pe_serialize float_repr (float_pe \<lparr> pe_m_init_flag := False \<rparr>) =
     (Inl Invalid_state, float_pe \<lparr> pe_m_init_flag := False \<rparr>) \<and>
   m_init_flag example_dndt \<and> pe_m_init_flag example_pe \<and>
   (\<exists>V. dndt_get_view exact_real example_dndt = Inr V \<and>
        m_params V = m_params example_dndt \<and> m_values (m_table V) = Span 2 [0, 1]) \<and>
   (\<exists>V. pe_get_view exact_real example_pe = Inr V \<and>
        pe_m_params V = pe_m_params example_pe \<and>
        m2_values (pe_m_table V) = Span 6 [- 3, - 2, - 1, - 3, - 2, - 1])"
proof -
  have v: "vdata (m_values (m_table example_dndt)) = [0, 1]"
      "vdata (m2_values (pe_m_table example_pe)) = [- 3, - 2, - 1, - 3, - 2, - 1]"
    by (simp_all add: example_dndt_def dndt_lookup_table_of_vals_def equispaced_1d_table_new_def
        example_pe_def pe_lookup_table_of_vals_def equispaced_2d_table_new_def)
  have f: "\<not> m_init_flag (float_dndt \<lparr> m_init_flag := False \<rparr>)"
      "\<not> pe_m_init_flag (float_pe \<lparr> pe_m_init_flag := False \<rparr>)"
    by simp_all
  show ?thesis
    using uninitialized_table_fails [where R = exact_real
        and T = "example_dndt \<lparr> m_init_flag := False \<rparr>"
        and T' = "example_pe \<lparr> pe_m_init_flag := False \<rparr>"
        and P = "\<lparr> sizeof_RealType = 8, to_bytes = (\<lambda>x. []), from_bytes = (\<lambda>bs. 0) \<rparr>"]
      uninitialized_table_fails [where R = exact_real and T = example_dndt and T' = example_pe
        and P = "\<lparr> sizeof_RealType = 8, to_bytes = (\<lambda>x. []), from_bytes = (\<lambda>bs. 0) \<rparr>"]
      uninitialized_table_fails [where P = float_repr
        and R = "\<lparr> r_lt = (<), r_add = (+), r_sub = (-), r_mul = (*), r_div = (div),
                  r_of_int = of_int, r_zero = 0, r_one = 1, m_log = id, m_exp = id \<rparr>"
        and T = "float_dndt \<lparr> m_init_flag := False \<rparr>"
        and T' = "float_pe \<lparr> pe_m_init_flag := False \<rparr>"]
    by (simp add: example_dndt_params example_pe_params v size_t_of_int_def)
qed

lemma dndt_view_table:
  assumes "dndt_grid_consistent R T"
  shows "equispaced_1d_interp H
           (m_table (dndt_lookup_table_of_vals R (m_params T)
              (Span (size_t_of_int (sint (chi_part_how_many (m_params T))))
                    (vdata (m_values (m_table T)))))) x
         = equispaced_1d_interp H (m_table T) x"
proof -
  let ?k = "chi_part_how_many (m_params T)"
  from assms obtain xs where xs: "m_values (m_table T) = Vector xs" "length xs = nat (sint ?k)"
    unfolding dndt_grid_consistent_def by (blast dest: owned_lengthD)
  from assms have pos: "0 \<le> sint ?k" unfolding dndt_grid_consistent_def by simp
  from assms have flds: "m_x_min (m_table T) = m_log R (chi_part_min (m_params T))"
      "m_x_max (m_table T) = m_log R (chi_part_max (m_params T))"
      "m_how_many_x (m_table T) = ?k"
    unfolding dndt_grid_consistent_def by simp_all
  show ?thesis
    using pos
    by (simp add: equispaced_1d_interp_def dndt_lookup_table_of_vals_def
        equispaced_1d_table_new_def xs flds size_t_of_sint of_nat_nat_sint vat_def)
qed

lemma pe_view_table:
  assumes "pe_grid_consistent R T"
  shows "pe_m_table (pe_lookup_table_of_vals R (pe_m_params T)
              (Span (size_t_of_int (sint (pe_chi_part_how_many (pe_m_params T)) *
                                    sint (frac_how_many (pe_m_params T))))
                    (vdata (m2_values (pe_m_table T)))))
         = (pe_m_table T) \<lparr> m2_values :=
              Span (length (vdata (m2_values (pe_m_table T)))) (vdata (m2_values (pe_m_table T))) \<rparr>"
proof -
  let ?kx = "pe_chi_part_how_many (pe_m_params T)" and ?ky = "frac_how_many (pe_m_params T)"
  from assms obtain xs where xs: "m2_values (pe_m_table T) = Vector xs"
      "length xs = nat (sint ?kx * sint ?ky)"
    unfolding pe_grid_consistent_def by (blast dest: owned_lengthD)
  from assms have pos: "0 < sint ?kx" "0 < sint ?ky" unfolding pe_grid_consistent_def by simp_all
  from assms have flds: "m2_x_min (pe_m_table T) = m_log R (pe_chi_part_min (pe_m_params T))"
      "m2_x_max (pe_m_table T) = m_log R (pe_chi_part_max (pe_m_params T))"
      "m2_y_min (pe_m_table T) = m_log R (frac_min (pe_m_params T))"
      "m2_y_max (pe_m_table T) = m_log R (r_one R)"
      "m2_how_many_x (pe_m_table T) = ?kx" "m2_how_many_y (pe_m_table T) = ?ky"
    unfolding pe_grid_consistent_def by simp_all
  show ?thesis
    by (rule equispaced_2d_table.equality)
       (simp_all add: pe_lookup_table_of_vals_def equispaced_2d_table_new_def xs flds
          size_t_of_sint_product [OF pos])
qed

lemma interp_first_coord_span:
  "m2_values tab = Vector xs \<Longrightarrow>
   interp_first_coord H (tab \<lparr> m2_values := Span (length xs) xs \<rparr>) = interp_first_coord H tab"
  by (intro ext) (simp add: interp_first_coord_def vat_def)

lemma get_y_coord_values: "get_y_coord R (tab \<lparr> m2_values := v \<rparr>) = get_y_coord R tab"
  by (intro ext) (simp add: get_y_coord_def)

lemma dndt_view_interp:
  assumes "dndt_grid_consistent R T"
  shows "dndt_interp R H (dndt_lookup_table_of_vals R (m_params T)
              (Span (size_t_of_int (sint (chi_part_how_many (m_params T))))
                    (vdata (m_values (m_table T))))) chi_part is_out
         = dndt_interp R H T chi_part is_out"
proof -
  have "m_params (dndt_lookup_table_of_vals R (m_params T) v) = m_params T" for v
    by (simp add: dndt_lookup_table_of_vals_def)
  then show ?thesis
    unfolding dndt_interp_def by (simp only: dndt_view_table [OF assms])
qed

lemma pe_view_interp:
  assumes "pe_grid_consistent R T"
  shows "pe_interp R H (pe_lookup_table_of_vals R (pe_m_params T)
              (Span (size_t_of_int (sint (pe_chi_part_how_many (pe_m_params T)) *
                                    sint (frac_how_many (pe_m_params T))))
                    (vdata (m2_values (pe_m_table T))))) chi_part u is_out
         = pe_interp R H T chi_part u is_out"
proof -
  from assms obtain xs where xs: "m2_values (pe_m_table T) = Vector xs"
    unfolding pe_grid_consistent_def by (blast dest: owned_lengthD)
  have p: "pe_m_params (pe_lookup_table_of_vals R (pe_m_params T) v) = pe_m_params T" for v
    by (simp add: pe_lookup_table_of_vals_def)
  have t: "pe_m_table (pe_lookup_table_of_vals R (pe_m_params T)
              (Span (size_t_of_int (sint (pe_chi_part_how_many (pe_m_params T)) *
                                    sint (frac_how_many (pe_m_params T))))
                    (vdata (m2_values (pe_m_table T)))))
        = (pe_m_table T) \<lparr> m2_values := Span (length xs) xs \<rparr>"
    using pe_view_table [OF assms] by (simp add: xs)
  show ?thesis
    unfolding pe_interp_def
    by (simp only: p t interp_first_coord_span [OF xs] get_y_coord_values)
qed

text \<open>
  Claim C7. For an initialized, grid-consistent owning table of either kind, the view that
  \<^verbatim>\<open>get_view\<close> returns interpolates exactly as the owner does, for every \<open>chi_part\<close>, inside
  the table or out of it on either side, for every draw of the photon emission table and
  every \<^verbatim>\<open>is_out\<close>: the view has the parameters of the owner and reads the same samples.
  This holds for every interpolation primitive of the inner containers.
\<close>

theorem view_interp_equals_owner:
  "(dndt_grid_consistent R T \<and> m_init_flag T \<longrightarrow>
      (\<exists>V. dndt_get_view R T = Inr V \<and>
           (\<forall>chi_part is_out. dndt_interp R H V chi_part is_out = dndt_interp R H T chi_part is_out))) \<and>
   (pe_grid_consistent R T' \<and> pe_m_init_flag T' \<longrightarrow>
      (\<exists>V. pe_get_view R T' = Inr V \<and>
           (\<forall>chi_part u is_out.
              pe_interp R H V chi_part u is_out = pe_interp R H T' chi_part u is_out)))"
  by (simp add: dndt_get_view_init pe_get_view_init dndt_view_interp pe_view_interp)

theorem view_interp_equals_owner_witness:
  "dndt_grid_consistent exact_real example_dndt \<and> m_init_flag example_dndt \<and>
   pe_grid_consistent exact_real example_pe \<and> pe_m_init_flag example_pe \<and>
   (\<exists>V. dndt_get_view exact_real example_dndt = Inr V \<and>
        (\<forall>chi_part is_out. dndt_interp exact_real exact_tables V chi_part is_out =
                            dndt_interp exact_real exact_tables example_dndt chi_part is_out)) \<and>
   (\<exists>V. pe_get_view exact_real example_pe = Inr V \<and>
        (\<forall>chi_part u is_out. pe_interp exact_real exact_tables V chi_part u is_out =
                              pe_interp exact_real exact_tables example_pe chi_part u is_out))"
  using view_interp_equals_owner [where R = exact_real and H = exact_tables and T = example_dndt
      and T' = example_pe]
  by (simp add: example_dndt_consistent example_pe_consistent example_dndt_params example_pe_params)

section \<open>Sampling from the photon emission table\<close>

lemma pe_interp_fst:
  "fst (pe_interp R H T chi_part u is_out) =
     (let e_chi_part = pe_e_chi_part R T chi_part;
          upper_frac_index = pe_upper_frac_index R H T e_chi_part u
      in if upper_frac_index = 0 then r_mul R (frac_min (pe_m_params T)) chi_part
         else if upper_frac_index = sint (frac_how_many (pe_m_params T)) then chi_part
         else r_mul R (m_exp R (pe_log_frac R H T e_chi_part u)) chi_part)"
proof -
  consider (below) "r_lt R chi_part (pe_chi_part_min (pe_m_params T))"
    | (above) "\<not> r_lt R chi_part (pe_chi_part_min (pe_m_params T))"
        "r_lt R (pe_chi_part_max (pe_m_params T)) chi_part"
    | (inside) "\<not> r_lt R chi_part (pe_chi_part_min (pe_m_params T))"
        "\<not> r_lt R (pe_chi_part_max (pe_m_params T)) chi_part"
    by blast
  then show ?thesis
  proof cases
    case below
    then have "pe_e_chi_part R T chi_part = pe_chi_part_min (pe_m_params T)"
      by (simp add: pe_e_chi_part_def)
    with below show ?thesis
      by (simp add: pe_interp_def pe_upper_frac_index_def pe_log_frac_def Let_def)
  next
    case above
    then have "pe_e_chi_part R T chi_part = pe_chi_part_max (pe_m_params T)"
      by (simp add: pe_e_chi_part_def)
    with above show ?thesis
      by (simp add: pe_interp_def pe_upper_frac_index_def pe_log_frac_def Let_def)
  next
    case inside
    then have "pe_e_chi_part R T chi_part = chi_part"
      by (simp add: pe_e_chi_part_def)
    with inside show ?thesis
      by (simp add: pe_interp_def pe_upper_frac_index_def pe_log_frac_def Let_def)
  qed
qed

subsection \<open>The upper-bound search\<close>

lemma picsar_upper_bound_functor_bracket:
  "first \<le> lst \<Longrightarrow>
   first \<le> picsar_upper_bound_functor lt first lst val f \<and>
   picsar_upper_bound_functor lt first lst val f \<le> lst \<and>
   (first < picsar_upper_bound_functor lt first lst val f \<longrightarrow>
      lt (f (picsar_upper_bound_functor lt first lst val f - 1)) val) \<and>
   (picsar_upper_bound_functor lt first lst val f < lst \<longrightarrow>
      \<not> lt (f (picsar_upper_bound_functor lt first lst val f)) val)"
proof (induction lt first lst val f rule: picsar_upper_bound_functor.induct)
  case (1 lt first lst val f)
  show ?case
  proof (cases "first < lst")
    case False
    then have "picsar_upper_bound_functor lt first lst val f = first"
      by (subst picsar_upper_bound_functor.simps) simp
    with "1.prems" False show ?thesis
      by simp
  next
    case True
    define it where "it = first + (lst - first) div 2"
    have it: "first \<le> it" "it < lst" using True by (simp_all add: it_def)
    show ?thesis
    proof (cases "lt (f it) val")
      case right: True
      define r where "r = picsar_upper_bound_functor lt (it + 1) lst val f"
      have eq: "picsar_upper_bound_functor lt first lst val f = r"
        unfolding r_def
        using True right by (subst picsar_upper_bound_functor.simps) (simp add: it_def Let_def)
      have ih: "it + 1 \<le> r \<and> r \<le> lst \<and> (it + 1 < r \<longrightarrow> lt (f (r - 1)) val) \<and>
          (r < lst \<longrightarrow> \<not> lt (f r) val)"
        unfolding r_def using "1.IH"(1) [OF True it_def right] it by simp
      have "lt (f (r - 1)) val"
      proof (cases "it + 1 < r")
        case True
        with ih show ?thesis by simp
      next
        case False
        with ih have "r - 1 = it" by simp
        with right show ?thesis by simp
      qed
      with ih it show ?thesis unfolding eq by simp
    next
      case left: False
      define r where "r = picsar_upper_bound_functor lt first it val f"
      have eq: "picsar_upper_bound_functor lt first lst val f = r"
        unfolding r_def
        using True left by (subst picsar_upper_bound_functor.simps) (simp add: it_def Let_def)
      have ih: "first \<le> r \<and> r \<le> it \<and> (first < r \<longrightarrow> lt (f (r - 1)) val) \<and>
          (r < it \<longrightarrow> \<not> lt (f r) val)"
        unfolding r_def using "1.IH"(2) [OF True it_def left] it by simp
      have "\<not> lt (f r) val"
      proof (cases "r < it")
        case True
        with ih show ?thesis by simp
      next
        case False
        with ih have "r = it" by simp
        with left show ?thesis by simp
      qed
      with ih it show ?thesis unfolding eq by simp
    qed
  qed
qed

text \<open>
  On a monotone row the search gives the first index whose value is not less than the target.
\<close>

lemma picsar_upper_bound_functor_first:
  assumes "first \<le> lst"
    and mono: "\<And>i j. first \<le> i \<Longrightarrow> i \<le> j \<Longrightarrow> j < lst \<Longrightarrow> \<not> lt (f i) val \<Longrightarrow> \<not> lt (f j) val"
    and i: "first \<le> i" "i < picsar_upper_bound_functor lt first lst val f"
  shows "lt (f i) val"
proof (rule ccontr)
  let ?r = "picsar_upper_bound_functor lt first lst val f"
  assume n: "\<not> lt (f i) val"
  note br = picsar_upper_bound_functor_bracket [OF assms(1), of lt val f]
  from i br have "first < ?r" "?r - 1 < lst" "i \<le> ?r - 1" by simp_all
  from mono [OF i(1) this(3) this(2) n] br \<open>first < ?r\<close> show False by simp
qed


subsection \<open>The fraction axis in exact arithmetic\<close>










subsection \<open>The example table, evaluated\<close>











lemma pe_e_chi_part_above:
  assumes ord: "strict_order (r_lt R)"
    and bounds: "r_lt R (pe_chi_part_min (pe_m_params T)) (pe_chi_part_max (pe_m_params T))"
    and above: "r_lt R (pe_chi_part_max (pe_m_params T)) chi_part"
  shows "pe_e_chi_part R T chi_part = pe_chi_part_max (pe_m_params T)"
proof -
  have "\<not> r_lt R chi_part (pe_chi_part_min (pe_m_params T))"
  proof
    assume "r_lt R chi_part (pe_chi_part_min (pe_m_params T))"
    with above have "r_lt R (pe_chi_part_max (pe_m_params T)) (pe_chi_part_min (pe_m_params T))"
      using ord by (blast dest: strict_order_trans)
    with bounds show False using ord by (blast dest: strict_order_asym)
  qed
  with above show ?thesis by (simp add: pe_e_chi_part_def)
qed



text \<open>
  In exact arithmetic this is linear scaling above the table.
\<close>

lemma pe_interp_linear_above_max:
  fixes chi chi' :: real
  assumes bounds: "pe_chi_part_min (pe_m_params T) < pe_chi_part_max (pe_m_params T)"
    and above: "pe_chi_part_max (pe_m_params T) < chi" "pe_chi_part_max (pe_m_params T) < chi'"
  shows "fst (pe_interp exact_real H T chi u is_out) * chi' =
         fst (pe_interp exact_real H T chi' u is_out') * chi"
proof -
  have ord: "strict_order (r_lt exact_real)"
    by (simp add: exact_real_simps strict_order_real)
  have e: "pe_e_chi_part exact_real T chi = pe_chi_part_max (pe_m_params T)"
      "pe_e_chi_part exact_real T chi' = pe_chi_part_max (pe_m_params T)"
    using bounds above by (simp_all add: pe_e_chi_part_above [OF ord] exact_real_simps)
  show ?thesis
    unfolding pe_interp_fst e by (simp add: Let_def exact_real_simps)
qed

section \<open>Byte buffers\<close>








subsection \<open>Rejected buffers\<close>

text \<open>
  Claim C5, as stated: the constructor from bytes fails with the format-mismatch error
  whenever the leading tag is not \<^verbatim>\<open>sizeof(RealType)\<close>. It does not on a buffer that is also
  too short: the one-byte buffer holding the tag \<open>8\<close>, read as single precision, fails with
  the truncated-data error, since the length is tested first.
\<close>

theorem from_bytes_short_buffer_counterexample:
  "hd [8] \<noteq> (of_nat (sizeof_RealType float_repr) :: byte) \<and>
   dndt_lookup_table_from_bytes float_repr [8] \<noteq> Inl Format_mismatch \<and>
   pe_lookup_table_from_bytes float_repr [8] \<noteq> Inl Format_mismatch"
  by (simp add: dndt_lookup_table_from_bytes_def pe_lookup_table_from_bytes_def
      sizeof_struct_float float_repr_simps)

text \<open>
  Claim C5, amended. For both table kinds the constructor from bytes fails with the
  truncated-data error whenever the buffer is shorter than \<open>1 + sizeof(parameter record)\<close>
  bytes, whatever it holds; on a buffer of at least that length it fails with the
  format-mismatch error whenever the leading tag is not \<^verbatim>\<open>sizeof(RealType)\<close>. In both cases
  no table is built.
\<close>

theorem from_bytes_rejects:
  "(length raw_data < 1 + sizeof_struct P 2 1 \<longrightarrow>
      dndt_lookup_table_from_bytes P raw_data = Inl Truncated_data) \<and>
   (1 + sizeof_struct P 2 1 \<le> length raw_data \<and> hd raw_data \<noteq> of_nat (sizeof_RealType P) \<longrightarrow>
      dndt_lookup_table_from_bytes P raw_data = Inl Format_mismatch) \<and>
   (length raw_data < 1 + sizeof_struct P 3 2 \<longrightarrow>
      pe_lookup_table_from_bytes P raw_data = Inl Truncated_data) \<and>
   (1 + sizeof_struct P 3 2 \<le> length raw_data \<and> hd raw_data \<noteq> of_nat (sizeof_RealType P) \<longrightarrow>
      pe_lookup_table_from_bytes P raw_data = Inl Format_mismatch)"
  by (simp add: dndt_lookup_table_from_bytes_def pe_lookup_table_from_bytes_def Let_def)

theorem from_bytes_rejects_witness:
  "length [4 :: byte] < 1 + sizeof_struct float_repr 2 1 \<and>
   length [4 :: byte] < 1 + sizeof_struct float_repr 3 2 \<and>
   dndt_lookup_table_from_bytes float_repr [4] = Inl Truncated_data \<and>
   pe_lookup_table_from_bytes float_repr [4] = Inl Truncated_data \<and>
   1 + sizeof_struct float_repr 2 1 \<le> length (8 # replicate 12 (0 :: byte)) \<and>
   hd (8 # replicate 12 (0 :: byte)) \<noteq> of_nat (sizeof_RealType float_repr) \<and>
   dndt_lookup_table_from_bytes float_repr (8 # replicate 12 0) = Inl Format_mismatch \<and>
   1 + sizeof_struct float_repr 3 2 \<le> length (8 # replicate 20 (0 :: byte)) \<and>
   pe_lookup_table_from_bytes float_repr (8 # replicate 20 0) = Inl Format_mismatch"
  using from_bytes_rejects [where P = float_repr and raw_data = "[4]"]
    from_bytes_rejects [where P = float_repr and raw_data = "8 # replicate 12 0"]
    from_bytes_rejects [where P = float_repr and raw_data = "8 # replicate 20 0"]
  by (simp add: sizeof_struct_float float_repr_simps)

subsection \<open>The round trip\<close>












text \<open>A NaN is not equal to itself: a table that holds one is not equal to itself either.\<close>

lemma float_eq_nan: "\<not> float_eq 0x7FC00000 0x7FC00000"
  by (simp add: float_eq_def float_is_nan_def)



end
